theory Spec2Isabelle
  imports Main
begin

section \<open>Cell values and their string forms\<close>

text \<open>
  A value as pandas hands it to the comparator: a missing value (every value for which
  \<^verbatim>\<open>pd.isna\<close> holds), a string, an integer, a float or a boolean. Strings are ASCII
  text. Of the floats only those with an integer value of magnitude up to \<open>2^53\<close> are in
  the embedding (\<open>FVal n\<close> is the float \<open>n.0\<close>): they are what an integer becomes when
  pandas converts it, the conversion is exact, and the string form is the digits followed
  by \<open>.0\<close>. Other floats and timestamps are left out.
\<close>

datatype cell = NaN | SVal string | IVal int | FVal int | BVal bool

fun isna :: "cell \<Rightarrow> bool" where
  "isna NaN = True"
| "isna (SVal s) = False"
| "isna (IVal i) = False"
| "isna (FVal i) = False"
| "isna (BVal b) = False"

definition digit_char :: "nat \<Rightarrow> char" where
  "digit_char n = ''0123456789'' ! (n mod 10)"

fun str_nat :: "nat \<Rightarrow> string" where
  "str_nat n = (if n < 10 then [digit_char n] else str_nat (n div 10) @ [digit_char n])"

declare str_nat.simps [simp del]

definition str_int :: "int \<Rightarrow> string" where
  "str_int i = (if i < 0 then CHR ''-'' # str_nat (nat (- i)) else str_nat (nat i))"

text \<open>Python's \<^verbatim>\<open>str(value)\<close>.\<close>

fun py_str :: "cell \<Rightarrow> string" where
  "py_str NaN = ''nan''"
| "py_str (SVal s) = s"
| "py_str (IVal i) = str_int i"
| "py_str (FVal i) = str_int i @ ''.0''"
| "py_str (BVal b) = (if b then ''True'' else ''False'')"

text \<open>
  \<^verbatim>\<open>str.isspace\<close> on ASCII: tab, line feed, vertical tab, form feed, carriage
  return, the four separators 0x1C to 0x1F, and the space.
\<close>

definition isspace :: "char \<Rightarrow> bool" where
  "isspace c = (let n = (of_char c :: nat) in (9 \<le> n \<and> n \<le> 13) \<or> (28 \<le> n \<and> n \<le> 32))"

text \<open>\<^verbatim>\<open>s.strip()\<close>: whitespace removed at both ends.\<close>

definition strip :: "string \<Rightarrow> string" where
  "strip s = rev (dropWhile isspace (rev (dropWhile isspace s)))"

text \<open>\<^verbatim>\<open>sep.join(parts)\<close>.\<close>

fun join :: "string \<Rightarrow> string list \<Rightarrow> string" where
  "join sep [] = []"
| "join sep [x] = x"
| "join sep (x # y # ys) = x @ sep @ join sep (y # ys)"

section \<open>Rows and the composite key\<close>

text \<open>
  A row as \<^verbatim>\<open>create_composite_key\<close> sees it is a pandas Series: a mapping from
  column label to cell. \<^verbatim>\<open>col in row\<close> tests the labels, so it is \<open>row col \<noteq> None\<close>.
\<close>

type_synonym series = "string \<rightharpoonup> cell"

text \<open>
  The body of the loop of \<^verbatim>\<open>create_composite_key\<close> for one column: what is
  appended to \<^verbatim>\<open>key_parts\<close>.
\<close>

definition key_part :: "series \<Rightarrow> string \<Rightarrow> string" where
  "key_part row col =
     (case row col of
        Some v \<Rightarrow> (if isna v then ''NULL'' else strip (py_str v))
      | None \<Rightarrow> ''MISSING'')"

definition key_parts :: "series \<Rightarrow> string list \<Rightarrow> string list" where
  "key_parts row identifier_columns = map (key_part row) identifier_columns"

definition create_composite_key :: "series \<Rightarrow> string list \<Rightarrow> string" where
  "create_composite_key row identifier_columns = join ''|'' (key_parts row identifier_columns)"

text \<open>
  \<^verbatim>\<open>extract_identifier_values\<close>: the same normalisation, kept per column. The
  dictionary is given as the list of its items in insertion order.
\<close>

definition extract_identifier_values :: "series \<Rightarrow> string list \<Rightarrow> (string \<times> string) list" where
  "extract_identifier_values row identifier_columns =
     map (\<lambda>col. (col, key_part row col)) identifier_columns"

definition UNIQUE_IDENTIFIERS :: "string list" where
  "UNIQUE_IDENTIFIERS = [''Channel Name'', ''Program Date'', ''Clip Start Time'']"

section \<open>Data frames and the row index\<close>

text \<open>
  A sheet as \<^verbatim>\<open>pd.read_excel\<close> returns it: the column labels, the dtype of every
  column and the rows in file order, under the default index 0, 1, 2, ... so that label
  and position of a row coincide. A row assigns a cell to every column of its frame; it
  is kept as a function on labels, of which only the values at the frame's columns are
  part of the frame.
\<close>

datatype dtype = Int64 | Float64 | Bool | Object

record dataframe =
  columns :: "string list"
  dtypes :: "string \<Rightarrow> dtype"
  rows :: "(string \<Rightarrow> cell) list"

datatype error = KeyError string | IndexError nat

text \<open>
  A row leaves its frame as one Series with a single dtype, both in \<^verbatim>\<open>df.iloc[i]\<close>
  and in \<^verbatim>\<open>df.apply(..., axis=1)\<close>: the common dtype of the columns. Columns of one
  dtype keep it, integer and float columns together give float, and every other mixture
  gives object (pandas does not mix booleans with numbers).
\<close>

definition interleaved_dtype :: "dtype list \<Rightarrow> dtype" where
  "interleaved_dtype ts =
     (case ts of
        [] \<Rightarrow> Object
      | t # us \<Rightarrow>
          if list_all (\<lambda>u. u = t) us then t
          else if list_all (\<lambda>u. u = Int64 \<or> u = Float64) ts then Float64
          else Object)"

definition row_dtype :: "dataframe \<Rightarrow> dtype" where
  "row_dtype df = interleaved_dtype (map (dtypes df) (columns df))"

text \<open>
  The conversion of a cell to the dtype of the row: in a float row an integer becomes the
  float of the same value, and nothing else changes within the embedding.
\<close>

fun upcast :: "dtype \<Rightarrow> cell \<Rightarrow> cell" where
  "upcast Float64 (IVal n) = FVal n"
| "upcast t v = v"

text \<open>The Series of a row: its cells, converted, under the labels of the frame.\<close>

definition series_of :: "dataframe \<Rightarrow> (string \<Rightarrow> cell) \<Rightarrow> series" where
  "series_of df r = (\<lambda>c. if c \<in> set (columns df) then Some (upcast (row_dtype df) (r c)) else None)"

text \<open>\<^verbatim>\<open>df.iloc[i]\<close>: the row at a position, IndexError beyond the last row.\<close>

definition iloc :: "dataframe \<Rightarrow> nat \<Rightarrow> error + series" where
  "iloc df i =
     (if i < length (rows df) then Inr (series_of df (rows df ! i))
      else Inl (IndexError i))"

text \<open>
  The \<^verbatim>\<open>COMPOSITE_KEY\<close> column: \<^verbatim>\<open>create_composite_key\<close> applied to every row
  as \<^verbatim>\<open>df.apply(..., axis=1)\<close> hands it over.
\<close>

definition composite_key_column :: "string list \<Rightarrow> dataframe \<Rightarrow> string list" where
  "composite_key_column identifier_columns df =
     map (\<lambda>r. create_composite_key (series_of df r) identifier_columns) (rows df)"

text \<open>
  The dictionary comprehension \<^verbatim>\<open>{row['COMPOSITE_KEY']: idx for idx, row in ...}\<close>:
  the rows are visited in order and each stores its position under its key, replacing
  what an earlier row stored there.
\<close>

definition index_dict :: "string list \<Rightarrow> (string \<rightharpoonup> nat)" where
  "index_dict keys = fold (\<lambda>(idx, key) d. d(key \<mapsto> idx)) (enumerate 0 keys) Map.empty"

text \<open>
  \<^verbatim>\<open>set(df1_dict.keys()) | set(df2_dict.keys())\<close>. Python leaves the order in which
  a set is iterated open; the model lists the keys of the first frame, then the new keys
  of the second, each once.
\<close>

definition all_keys :: "string list \<Rightarrow> string list \<Rightarrow> string list" where
  "all_keys keys1 keys2 = remdups (keys1 @ keys2)"

text \<open>The column sets, each as a list without repetition.\<close>

definition common_columns :: "dataframe \<Rightarrow> dataframe \<Rightarrow> string list" where
  "common_columns df1 df2 = filter (\<lambda>c. c \<in> set (columns df2)) (remdups (columns df1))"

definition unique_columns :: "dataframe \<Rightarrow> dataframe \<Rightarrow> string list" where
  "unique_columns df1 df2 = filter (\<lambda>c. c \<notin> set (columns df2)) (remdups (columns df1))"

section \<open>The difference analysis\<close>

record entry =
  composite_key :: string
  identifier_values :: "(string \<times> string) list"

record identical_entry = entry +
  file1_index :: nat
  file2_index :: nat

record modified_entry = identical_entry +
  modified_columns :: "(string \<times> cell \<times> cell) list"

text \<open>
  An entry of \<^verbatim>\<open>rows_only_in_file1\<close> or \<^verbatim>\<open>rows_only_in_file2\<close>; \<open>row_index\<close> is
  its \<^verbatim>\<open>file1_index\<close> or \<^verbatim>\<open>file2_index\<close>.
\<close>

record only_entry = entry +
  row_index :: nat
  data :: series

record classification =
  rows_only_in_file1 :: "only_entry list"
  rows_only_in_file2 :: "only_entry list"
  identical_rows :: "identical_entry list"
  modified_rows :: "modified_entry list"

record column_diffs =
  file1_unique_columns :: "string list"
  file2_unique_columns :: "string list"

record summary =
  total_rows_file1 :: nat
  total_rows_file2 :: nat
  n_rows_only_in_file1 :: nat
  n_rows_only_in_file2 :: nat
  n_identical_rows :: nat
  n_modified_rows :: nat
  n_common_columns :: nat
  n_file1_unique_columns :: nat
  n_file2_unique_columns :: nat
  available_identifiers :: "string list"
  missing_identifiers :: "string list"

record differences = classification +
  column_differences :: column_diffs
  summary :: summary

text \<open>
  The inner loop over \<^verbatim>\<open>common_columns\<close>: the items of \<^verbatim>\<open>modified_cols\<close>, each
  a column with the two raw values. Reading a label that a row does not have raises
  KeyError.
\<close>

fun compare_rows :: "series \<Rightarrow> series \<Rightarrow> string list \<Rightarrow> error + (string \<times> cell \<times> cell) list" where
  "compare_rows row1 row2 [] = Inr []"
| "compare_rows row1 row2 (col # cols) =
     (case row1 col of
        None \<Rightarrow> Inl (KeyError col)
      | Some val1 \<Rightarrow>
          (case row2 col of
             None \<Rightarrow> Inl (KeyError col)
           | Some val2 \<Rightarrow>
               (case compare_rows row1 row2 cols of
                  Inl e \<Rightarrow> Inl e
                | Inr rest \<Rightarrow>
                    if isna val1 \<and> isna val2 then Inr rest
                    else if isna val1 \<or> isna val2 \<or> py_str val1 \<noteq> py_str val2
                      then Inr ((col, val1, val2) # rest)
                    else Inr rest)))"

text \<open>The body of the loop over \<^verbatim>\<open>all_keys\<close>, for one key.\<close>

definition process_key ::
  "dataframe \<Rightarrow> dataframe \<Rightarrow> (string \<rightharpoonup> nat) \<Rightarrow> (string \<rightharpoonup> nat) \<Rightarrow> string list \<Rightarrow> string list \<Rightarrow>
   string \<Rightarrow> classification \<Rightarrow> error + classification" where
  "process_key df1 df2 df1_dict df2_dict common available key diffs =
     (case df1_dict key of
        Some row1_idx \<Rightarrow>
          (case df2_dict key of
             Some row2_idx \<Rightarrow>
               (case iloc df1 row1_idx of
                  Inl e \<Rightarrow> Inl e
                | Inr row1 \<Rightarrow>
                    (case iloc df2 row2_idx of
                       Inl e \<Rightarrow> Inl e
                     | Inr row2 \<Rightarrow>
                         (case compare_rows row1 row2 common of
                            Inl e \<Rightarrow> Inl e
                          | Inr modified_cols \<Rightarrow>
                              if modified_cols \<noteq> [] then
                                Inr (diffs\<lparr>modified_rows := modified_rows diffs @
                                  [\<lparr>composite_key = key,
                                    identifier_values = extract_identifier_values row1 available,
                                    file1_index = row1_idx, file2_index = row2_idx,
                                    modified_columns = modified_cols\<rparr>]\<rparr>)
                              else
                                Inr (diffs\<lparr>identical_rows := identical_rows diffs @
                                  [\<lparr>composite_key = key,
                                    identifier_values = extract_identifier_values row1 available,
                                    file1_index = row1_idx, file2_index = row2_idx\<rparr>]\<rparr>))))
           | None \<Rightarrow>
               (case iloc df1 row1_idx of
                  Inl e \<Rightarrow> Inl e
                | Inr row1 \<Rightarrow>
                    Inr (diffs\<lparr>rows_only_in_file1 := rows_only_in_file1 diffs @
                      [\<lparr>composite_key = key,
                        identifier_values = extract_identifier_values row1 available,
                        row_index = row1_idx, data = row1\<rparr>]\<rparr>)))
      | None \<Rightarrow>
          (case df2_dict key of
             None \<Rightarrow> Inl (KeyError key)
           | Some row2_idx \<Rightarrow>
               (case iloc df2 row2_idx of
                  Inl e \<Rightarrow> Inl e
                | Inr row2 \<Rightarrow>
                    Inr (diffs\<lparr>rows_only_in_file2 := rows_only_in_file2 diffs @
                      [\<lparr>composite_key = key,
                        identifier_values = extract_identifier_values row2 available,
                        row_index = row2_idx, data = row2\<rparr>]\<rparr>))))"

text \<open>The loop over \<^verbatim>\<open>all_keys\<close>; an exception ends it.\<close>

fun classify_keys ::
  "dataframe \<Rightarrow> dataframe \<Rightarrow> (string \<rightharpoonup> nat) \<Rightarrow> (string \<rightharpoonup> nat) \<Rightarrow> string list \<Rightarrow> string list \<Rightarrow>
   string list \<Rightarrow> classification \<Rightarrow> error + classification" where
  "classify_keys df1 df2 df1_dict df2_dict common available [] diffs = Inr diffs"
| "classify_keys df1 df2 df1_dict df2_dict common available (key # keys) diffs =
     (case process_key df1 df2 df1_dict df2_dict common available key diffs of
        Inl e \<Rightarrow> Inl e
      | Inr diffs' \<Rightarrow> classify_keys df1 df2 df1_dict df2_dict common available keys diffs')"

text \<open>
  The check of the identifiers at the start of \<^verbatim>\<open>analyze_differences\<close>: an identifier
  is available when it is a column of both frames, and missing otherwise.
\<close>

definition available_of :: "string list \<Rightarrow> dataframe \<Rightarrow> dataframe \<Rightarrow> string list" where
  "available_of identifiers df1 df2 =
     filter (\<lambda>identifier. identifier \<in> set (columns df1) \<and> identifier \<in> set (columns df2)) identifiers"

definition missing_of :: "string list \<Rightarrow> dataframe \<Rightarrow> dataframe \<Rightarrow> string list" where
  "missing_of identifiers df1 df2 =
     filter (\<lambda>identifier. \<not> (identifier \<in> set (columns df1) \<and> identifier \<in> set (columns df2))) identifiers"

text \<open>
  \<^verbatim>\<open>analyze_differences\<close>, with the module constant \<^verbatim>\<open>UNIQUE_IDENTIFIERS\<close> that it
  reads as the argument \<open>identifiers\<close>. The file and sheet names are only printed.
\<close>

definition analyze_differences_with :: "string list \<Rightarrow> dataframe \<Rightarrow> dataframe \<Rightarrow> error + differences" where
  "analyze_differences_with identifiers df1 df2 =
     (let available = available_of identifiers df1 df2;
          missing = missing_of identifiers df1 df2;
          keys1 = composite_key_column available df1;
          keys2 = composite_key_column available df2;
          df1_dict = index_dict keys1;
          df2_dict = index_dict keys2;
          common = common_columns df1 df2
      in case classify_keys df1 df2 df1_dict df2_dict common available (all_keys keys1 keys2)
                \<lparr>rows_only_in_file1 = [], rows_only_in_file2 = [], identical_rows = [], modified_rows = []\<rparr> of
           Inl e \<Rightarrow> Inl e
         | Inr c \<Rightarrow>
             Inr \<lparr>rows_only_in_file1 = rows_only_in_file1 c,
                  rows_only_in_file2 = rows_only_in_file2 c,
                  identical_rows = identical_rows c,
                  modified_rows = modified_rows c,
                  column_differences =
                    \<lparr>file1_unique_columns = unique_columns df1 df2,
                     file2_unique_columns = unique_columns df2 df1\<rparr>,
                  summary =
                    \<lparr>total_rows_file1 = length (rows df1),
                     total_rows_file2 = length (rows df2),
                     n_rows_only_in_file1 = length (rows_only_in_file1 c),
                     n_rows_only_in_file2 = length (rows_only_in_file2 c),
                     n_identical_rows = length (identical_rows c),
                     n_modified_rows = length (modified_rows c),
                     n_common_columns = length common,
                     n_file1_unique_columns = length (unique_columns df1 df2),
                     n_file2_unique_columns = length (unique_columns df2 df1),
                     available_identifiers = available,
                     missing_identifiers = missing\<rparr>\<rparr>)"

definition analyze_differences :: "dataframe \<Rightarrow> dataframe \<Rightarrow> error + differences" where
  "analyze_differences df1 df2 = analyze_differences_with UNIQUE_IDENTIFIERS df1 df2"

section \<open>Sheets and the overall report\<close>

record statistics =
  file1_rows :: nat
  file1_columns :: nat
  file2_rows :: nat
  file2_columns :: nat
  stats_common_columns :: "string list"
  stats_file1_unique_columns :: "string list"
  stats_file2_unique_columns :: "string list"

record sheet_result =
  statistics :: statistics
  differences :: differences

text \<open>
  The body of the loop of \<^verbatim>\<open>compare_excel_files\<close> for one sheet, once both frames
  are read: the statistics and the analysis.
\<close>

definition compare_sheet :: "dataframe \<Rightarrow> dataframe \<Rightarrow> error + sheet_result" where
  "compare_sheet df1 df2 =
     (let stats =
            \<lparr>file1_rows = length (rows df1),
             file1_columns = length (columns df1),
             file2_rows = length (rows df2),
             file2_columns = length (columns df2),
             stats_common_columns = common_columns df1 df2,
             stats_file1_unique_columns = unique_columns df1 df2,
             stats_file2_unique_columns = unique_columns df2 df1\<rparr>
      in case analyze_differences df1 df2 of
           Inl e \<Rightarrow> Inl e
         | Inr d \<Rightarrow> Inr \<lparr>statistics = stats, differences = d\<rparr>)"

text \<open>
  \<^verbatim>\<open>compare_excel_files\<close> on two workbooks already read, each the list of its
  sheets by name. A sheet whose comparison raises is skipped (the \<^verbatim>\<open>except\<close> branch
  continues with the next one); with no common sheet the result is \<^verbatim>\<open>None\<close>.
\<close>

type_synonym workbook = "(string \<times> dataframe) list"

fun compare_sheets :: "workbook \<Rightarrow> workbook \<Rightarrow> string list \<Rightarrow> (string \<times> sheet_result) list" where
  "compare_sheets wb1 wb2 [] = []"
| "compare_sheets wb1 wb2 (sheet_name # names) =
     (case map_of wb1 sheet_name of
        None \<Rightarrow> compare_sheets wb1 wb2 names
      | Some df1 \<Rightarrow>
          (case map_of wb2 sheet_name of
             None \<Rightarrow> compare_sheets wb1 wb2 names
           | Some df2 \<Rightarrow>
               (case compare_sheet df1 df2 of
                  Inl e \<Rightarrow> compare_sheets wb1 wb2 names
                | Inr r \<Rightarrow> (sheet_name, r) # compare_sheets wb1 wb2 names)))"

definition compare_excel_files :: "workbook \<Rightarrow> workbook \<Rightarrow> (string \<times> sheet_result) list option" where
  "compare_excel_files wb1 wb2 =
     (let common_sheets = filter (\<lambda>n. n \<in> set (map fst wb2)) (remdups (map fst wb1))
      in if common_sheets = [] then None else Some (compare_sheets wb1 wb2 common_sheets))"

text \<open>
  \<^verbatim>\<open>generate_summary_report\<close>: the five numbers it prints and the verdict it
  prints (\<open>files_identical\<close> for "Files are IDENTICAL").
\<close>

record overall =
  total_sheets :: nat
  sheets_with_differences :: nat
  total_modifications :: nat
  total_missing_rows_file1 :: nat
  total_missing_rows_file2 :: nat
  files_identical :: bool

definition add_sheet :: "string \<times> sheet_result \<Rightarrow> overall \<Rightarrow> overall" where
  "add_sheet item acc =
     (let s = summary (differences (snd item))
      in acc\<lparr>sheets_with_differences :=
               (if n_modified_rows s > 0 \<or> n_rows_only_in_file1 s > 0 \<or> n_rows_only_in_file2 s > 0
                then sheets_with_differences acc + 1 else sheets_with_differences acc),
             total_modifications := total_modifications acc + n_modified_rows s,
             total_missing_rows_file1 := total_missing_rows_file1 acc + n_rows_only_in_file1 s,
             total_missing_rows_file2 := total_missing_rows_file2 acc + n_rows_only_in_file2 s\<rparr>)"

definition generate_summary_report :: "(string \<times> sheet_result) list \<Rightarrow> overall" where
  "generate_summary_report comparison_results =
     (let acc = fold add_sheet comparison_results
                  \<lparr>total_sheets = length comparison_results, sheets_with_differences = 0,
                   total_modifications = 0, total_missing_rows_file1 = 0,
                   total_missing_rows_file2 = 0, files_identical = False\<rparr>
      in acc\<lparr>files_identical :=
               (total_modifications acc = 0 \<and> total_missing_rows_file1 acc = 0 \<and>
                total_missing_rows_file2 acc = 0)\<rparr>)"

section \<open>The comparison rule as the specification words it\<close>

text \<open>
  Two values of a common column count as changed unless both are null; then exactly one
  null, or two different string forms, is a change.
\<close>

definition spec_values_differ :: "cell \<Rightarrow> cell \<Rightarrow> bool" where
  "spec_values_differ v1 v2 =
     (if isna v1 \<and> isna v2 then False
      else (isna v1 \<noteq> isna v2) \<or> py_str v1 \<noteq> py_str v2)"

text \<open>The value of a column in row \<open>i\<close> as the extracted row holds it.\<close>

definition row_value :: "dataframe \<Rightarrow> nat \<Rightarrow> string \<Rightarrow> cell" where
  "row_value df i c = upcast (row_dtype df) ((rows df ! i) c)"

text \<open>
  The outcome the specification gives a key, from the two indices: used to describe what
  the loop over the keys builds.
\<close>

datatype outcome = Identical | Modified | OnlyLeft | OnlyRight | Absent

definition spec_outcome ::
  "dataframe \<Rightarrow> dataframe \<Rightarrow> (string \<rightharpoonup> nat) \<Rightarrow> (string \<rightharpoonup> nat) \<Rightarrow> string list \<Rightarrow> string \<Rightarrow> outcome" where
  "spec_outcome df1 df2 d1 d2 common key =
     (case d1 key of
        Some i \<Rightarrow>
          (case d2 key of
             Some j \<Rightarrow>
               if list_ex (\<lambda>c. spec_values_differ (row_value df1 i c) (row_value df2 j c)) common
               then Modified else Identical
           | None \<Rightarrow> OnlyLeft)
      | None \<Rightarrow> (case d2 key of Some j \<Rightarrow> OnlyRight | None \<Rightarrow> Absent))"




text \<open>
  The two dictionaries \<^verbatim>\<open>df1_dict\<close> and \<^verbatim>\<open>df2_dict\<close> that
  \<^verbatim>\<open>analyze_differences\<close> builds, and the outcome of a key under them.
\<close>

definition df1_dict_of :: "string list \<Rightarrow> dataframe \<Rightarrow> dataframe \<Rightarrow> (string \<rightharpoonup> nat)" where
  "df1_dict_of identifiers df1 df2 =
     index_dict (composite_key_column (available_of identifiers df1 df2) df1)"

definition df2_dict_of :: "string list \<Rightarrow> dataframe \<Rightarrow> dataframe \<Rightarrow> (string \<rightharpoonup> nat)" where
  "df2_dict_of identifiers df1 df2 =
     index_dict (composite_key_column (available_of identifiers df1 df2) df2)"

definition outcome_in :: "string list \<Rightarrow> dataframe \<Rightarrow> dataframe \<Rightarrow> string \<Rightarrow> outcome" where
  "outcome_in identifiers df1 df2 key =
     spec_outcome df1 df2 (df1_dict_of identifiers df1 df2) (df2_dict_of identifiers df1 df2)
       (common_columns df1 df2) key"

section \<open>Example inputs\<close>

text \<open>Two rows whose identifier values differ and contain the separator.\<close>

definition row_bar_left :: series where
  "row_bar_left = [''Channel Name'' \<mapsto> SVal ''A|B'', ''Program Date'' \<mapsto> SVal ''C'',
     ''Clip Start Time'' \<mapsto> SVal ''D'']"

definition row_bar_right :: series where
  "row_bar_right = [''Channel Name'' \<mapsto> SVal ''A'', ''Program Date'' \<mapsto> SVal ''B|C'',
     ''Clip Start Time'' \<mapsto> SVal ''D'']"

text \<open>Two rows with the same channel and different dates, and a row without a date.\<close>

definition row_monday :: series where
  "row_monday = [''Channel Name'' \<mapsto> SVal ''News '', ''Program Date'' \<mapsto> SVal ''2024-01-01'']"

definition row_tuesday :: series where
  "row_tuesday = [''Channel Name'' \<mapsto> SVal ''News'', ''Program Date'' \<mapsto> SVal ''2024-01-02'']"

definition row_undated :: series where
  "row_undated = [''Channel Name'' \<mapsto> SVal ''News'', ''Clip Start Time'' \<mapsto> IVal 10]"

text \<open>
  Two versions of a sheet with all three identifiers as text and an integer column. In
  the first, rows 0 and 2 have the same key; against the second version that key is
  modified, the key of channel B is identical, channel D is only in the first and channel
  C only in the second. The second version has an empty column \<open>note\<close>.
\<close>

definition blank_row :: "string \<Rightarrow> cell" where
  "blank_row = (\<lambda>c. NaN)"

definition text_columns :: "string \<Rightarrow> dtype" where
  "text_columns = (\<lambda>c. Object)"

definition sheet_v1 :: dataframe where
  "sheet_v1 = \<lparr>columns = [''Channel Name'', ''Program Date'', ''Clip Start Time'', ''val''],
     dtypes = text_columns(''val'' := Int64),
     rows = [blank_row(''Channel Name'' := SVal ''A'', ''Program Date'' := SVal ''2024-01-01'',
               ''Clip Start Time'' := SVal ''10:00'', ''val'' := IVal 5),
             blank_row(''Channel Name'' := SVal ''B'', ''Program Date'' := SVal ''2024-01-01'',
               ''Clip Start Time'' := SVal ''11:00'', ''val'' := IVal 3),
             blank_row(''Channel Name'' := SVal ''A'', ''Program Date'' := SVal ''2024-01-01'',
               ''Clip Start Time'' := SVal ''10:00'', ''val'' := IVal 7),
             blank_row(''Channel Name'' := SVal ''D'', ''Program Date'' := SVal ''2024-01-01'',
               ''Clip Start Time'' := SVal ''12:00'', ''val'' := IVal 1)]\<rparr>"

definition sheet_v2 :: dataframe where
  "sheet_v2 = \<lparr>columns = [''Channel Name'', ''Program Date'', ''Clip Start Time'', ''val'', ''note''],
     dtypes = text_columns(''val'' := Int64, ''note'' := Float64),
     rows = [blank_row(''Channel Name'' := SVal ''A'', ''Program Date'' := SVal ''2024-01-01'',
               ''Clip Start Time'' := SVal ''10:00'', ''val'' := IVal 6),
             blank_row(''Channel Name'' := SVal ''B'', ''Program Date'' := SVal ''2024-01-01'',
               ''Clip Start Time'' := SVal ''11:00'', ''val'' := IVal 3),
             blank_row(''Channel Name'' := SVal ''C'', ''Program Date'' := SVal ''2024-01-01'',
               ''Clip Start Time'' := SVal ''09:00'', ''val'' := IVal 2)]\<rparr>"

text \<open>
  A sheet whose first version has no date column, while the second has the column with a
  null date in the matching row.
\<close>

definition undated_v1 :: dataframe where
  "undated_v1 = \<lparr>columns = [''Channel Name'', ''Clip Start Time'', ''val''],
     dtypes = text_columns(''val'' := Int64),
     rows = [blank_row(''Channel Name'' := SVal ''A'', ''Clip Start Time'' := SVal ''10:00'',
               ''val'' := IVal 5)]\<rparr>"

definition undated_v2 :: dataframe where
  "undated_v2 = \<lparr>columns = [''Channel Name'', ''Program Date'', ''Clip Start Time'', ''val''],
     dtypes = text_columns(''val'' := Int64, ''Program Date'' := Float64),
     rows = [blank_row(''Channel Name'' := SVal ''A'', ''Clip Start Time'' := SVal ''10:00'',
               ''val'' := IVal 5)]\<rparr>"

text \<open>
  The same with integer codes as identifiers: every column of the first version is an
  integer column, and the second has the empty date column beside them.
\<close>

definition coded_v1 :: dataframe where
  "coded_v1 = \<lparr>columns = [''Channel Name'', ''Clip Start Time''],
     dtypes = (\<lambda>c. Int64),
     rows = [blank_row(''Channel Name'' := IVal 7, ''Clip Start Time'' := IVal 10)]\<rparr>"

definition coded_v2 :: dataframe where
  "coded_v2 = \<lparr>columns = [''Channel Name'', ''Program Date'', ''Clip Start Time''],
     dtypes = (\<lambda>c. Int64)(''Program Date'' := Float64),
     rows = [blank_row(''Channel Name'' := IVal 7, ''Clip Start Time'' := IVal 10)]\<rparr>"

text \<open>Two sheets without any identifier column.\<close>

definition plain_v1 :: dataframe where
  "plain_v1 = \<lparr>columns = [''val''],
     dtypes = (\<lambda>c. Int64),
     rows = [blank_row(''val'' := IVal 1), blank_row(''val'' := IVal 2)]\<rparr>"

definition plain_v2 :: dataframe where
  "plain_v2 = \<lparr>columns = [''val'', ''note''],
     dtypes = (\<lambda>c. Int64)(''note'' := Float64),
     rows = [blank_row(''val'' := IVal 1), blank_row(''val'' := IVal 2),
             blank_row(''val'' := IVal 3)]\<rparr>"



text \<open>A sheet of three rows with one key.\<close>

definition repeat_sheet :: dataframe where
  "repeat_sheet = \<lparr>columns = [''Channel Name'', ''Program Date'', ''Clip Start Time'', ''val''],
     dtypes = text_columns(''val'' := Int64),
     rows = [blank_row(''Channel Name'' := SVal ''A'', ''Program Date'' := SVal ''2024-01-01'',
               ''Clip Start Time'' := SVal ''10:00'', ''val'' := IVal 1),
             blank_row(''Channel Name'' := SVal ''A'', ''Program Date'' := SVal ''2024-01-01'',
               ''Clip Start Time'' := SVal ''10:00'', ''val'' := IVal 2),
             blank_row(''Channel Name'' := SVal ''A'', ''Program Date'' := SVal ''2024-01-01'',
               ''Clip Start Time'' := SVal ''10:00'', ''val'' := IVal 3)]\<rparr>"


text \<open>Two workbooks with the common sheets Log and Plain.\<close>

definition book_v1 :: workbook where
  "book_v1 = [(''Log'', sheet_v1), (''Plain'', plain_v1), (''Old'', undated_v1)]"

definition book_v2 :: workbook where
  "book_v2 = [(''Plain'', plain_v2), (''Log'', sheet_v2), (''New'', undated_v2)]"

section \<open>Joining and splitting at the separator\<close>

lemma join_Cons: "join sep (x # xs) = (if xs = [] then x else x @ sep @ join sep xs)"
  by (cases xs) simp_all

lemma join_append_Cons:
  "join sep (xs @ y # ys) = concat (map (\<lambda>x. x @ sep) xs) @ join sep (y # ys)"
  by (induction xs) (simp_all add: join_Cons)

lemma sep_split_unique:
  "c \<notin> set x \<Longrightarrow> c \<notin> set y \<Longrightarrow> x @ c # r = y @ c # s \<Longrightarrow> x = y \<and> r = s"
proof (induction x arbitrary: y)
  case Nil
  then show ?case by (cases y) auto
next
  case (Cons a x)
  then show ?case by (cases y) auto
qed

lemma join_sep_free_inj:
  assumes "length xs = length ys"
    and "\<forall>p\<in>set xs. c \<notin> set p" and "\<forall>p\<in>set ys. c \<notin> set p"
    and "join [c] xs = join [c] ys"
  shows "xs = ys"
  using assms
proof (induction xs ys rule: list_induct2)
  case Nil
  then show ?case by simp
next
  case (Cons x xs y ys)
  show ?case
  proof (cases "xs = []")
    case True
    with Cons show ?thesis by simp
  next
    case False
    with Cons.hyps have ne: "ys \<noteq> []" by auto
    from Cons.prems(3) False ne have "x @ c # join [c] xs = y @ c # join [c] ys"
      by (simp add: join_Cons)
    moreover have "c \<notin> set x" "c \<notin> set y" using Cons.prems by auto
    ultimately have "x = y \<and> join [c] xs = join [c] ys"
      using sep_split_unique [of c x y "join [c] xs" "join [c] ys"] by simp
    with Cons show ?thesis by auto
  qed
qed

section \<open>The composite key\<close>

text \<open>
  C4, as the code has it. Rows with the same normalised identifier values have the same
  composite key. Rows with different normalised identifier values have different keys
  provided that none of these values contains the separator \<open>|\<close>; the code joins the
  values as they are, so the proviso is needed.
\<close>

theorem create_composite_key_injective_sep_free:
  "(key_parts r1 ids = key_parts r2 ids \<longrightarrow>
      create_composite_key r1 ids = create_composite_key r2 ids) \<and>
   ((\<forall>p \<in> set (key_parts r1 ids) \<union> set (key_parts r2 ids). CHR ''|'' \<notin> set p) \<longrightarrow>
      key_parts r1 ids \<noteq> key_parts r2 ids \<longrightarrow>
      create_composite_key r1 ids \<noteq> create_composite_key r2 ids)"
proof -
  have len: "length (key_parts r1 ids) = length (key_parts r2 ids)"
    by (simp add: key_parts_def)
  show ?thesis
    unfolding create_composite_key_def
    using join_sep_free_inj [OF len, of "CHR ''|''"] by auto
qed

theorem create_composite_key_injective_sep_free_witness:
  "key_parts row_monday [''Channel Name''] = key_parts row_tuesday [''Channel Name''] \<and>
   create_composite_key row_monday [''Channel Name''] = create_composite_key row_tuesday [''Channel Name''] \<and>
   key_parts row_monday UNIQUE_IDENTIFIERS = [''News'', ''2024-01-01'', ''MISSING''] \<and>
   key_parts row_tuesday UNIQUE_IDENTIFIERS = [''News'', ''2024-01-02'', ''MISSING''] \<and>
   create_composite_key row_monday UNIQUE_IDENTIFIERS \<noteq> create_composite_key row_tuesday UNIQUE_IDENTIFIERS"
proof -
  have same: "key_parts row_monday [''Channel Name''] = key_parts row_tuesday [''Channel Name'']"
    by (simp add: row_monday_def row_tuesday_def key_parts_def key_part_def strip_def isspace_def)
  have p1: "key_parts row_monday UNIQUE_IDENTIFIERS = [''News'', ''2024-01-01'', ''MISSING'']"
    by (simp add: row_monday_def key_parts_def key_part_def strip_def isspace_def
        UNIQUE_IDENTIFIERS_def)
  have p2: "key_parts row_tuesday UNIQUE_IDENTIFIERS = [''News'', ''2024-01-02'', ''MISSING'']"
    by (simp add: row_tuesday_def key_parts_def key_part_def strip_def isspace_def
        UNIQUE_IDENTIFIERS_def)
  have free: "\<forall>p \<in> set (key_parts row_monday UNIQUE_IDENTIFIERS) \<union> set (key_parts row_tuesday UNIQUE_IDENTIFIERS).
      CHR ''|'' \<notin> set p"
    by (simp add: p1 p2)
  have diff: "key_parts row_monday UNIQUE_IDENTIFIERS \<noteq> key_parts row_tuesday UNIQUE_IDENTIFIERS"
    by (simp add: p1 p2)
  from same p1 p2 free diff show ?thesis
    using create_composite_key_injective_sep_free [of row_monday "[''Channel Name'']" row_tuesday]
      create_composite_key_injective_sep_free [of row_monday UNIQUE_IDENTIFIERS row_tuesday]
    by blast
qed

text \<open>
  C4 as stated fails: the two rows differ in two normalised identifier values, and both
  have the key \<open>A|B|C|D\<close>.
\<close>

theorem create_composite_key_separator_collision:
  "key_parts row_bar_left UNIQUE_IDENTIFIERS \<noteq> key_parts row_bar_right UNIQUE_IDENTIFIERS \<and>
   create_composite_key row_bar_left UNIQUE_IDENTIFIERS = ''A|B|C|D'' \<and>
   create_composite_key row_bar_right UNIQUE_IDENTIFIERS = ''A|B|C|D''"
  by (simp add: row_bar_left_def row_bar_right_def create_composite_key_def key_parts_def
      key_part_def UNIQUE_IDENTIFIERS_def strip_def isspace_def)

text \<open>
  C5, as the code has it. For an identifier list that contains the field \<open>F\<close>, a row
  without \<open>F\<close> and the same row with a null \<open>F\<close> have different composite keys: the
  first contributes \<open>MISSING\<close> and the second \<open>NULL\<close> at the first place of \<open>F\<close>.
\<close>

theorem missing_vs_null_keys_differ:
  assumes "F \<in> set ids" and "r F = None" and "isna v"
  shows "create_composite_key r ids \<noteq> create_composite_key (r(F \<mapsto> v)) ids"
proof -
  from assms(1) obtain pre post where ids: "ids = pre @ F # post" and pre: "F \<notin> set pre"
    by (auto dest: split_list_first)
  have same: "map (key_part (r(F \<mapsto> v))) pre = map (key_part r) pre"
    using pre by (auto simp: key_part_def)
  have m: "key_part r F = ''MISSING''" using assms(2) by (simp add: key_part_def)
  have n: "key_part (r(F \<mapsto> v)) F = ''NULL''" using assms(3) by (simp add: key_part_def)
  show ?thesis
    unfolding create_composite_key_def key_parts_def ids
    by (simp add: join_append_Cons same m n join_Cons)
qed

theorem missing_vs_null_keys_differ_witness:
  "''Program Date'' \<in> set UNIQUE_IDENTIFIERS \<and> row_undated ''Program Date'' = None \<and> isna NaN \<and>
   create_composite_key row_undated UNIQUE_IDENTIFIERS = ''News|MISSING|10'' \<and>
   create_composite_key (row_undated(''Program Date'' \<mapsto> NaN)) UNIQUE_IDENTIFIERS = ''News|NULL|10'' \<and>
   create_composite_key row_undated UNIQUE_IDENTIFIERS \<noteq>
     create_composite_key (row_undated(''Program Date'' \<mapsto> NaN)) UNIQUE_IDENTIFIERS"
proof -
  have a: "''Program Date'' \<in> set UNIQUE_IDENTIFIERS" by (simp add: UNIQUE_IDENTIFIERS_def)
  have b: "row_undated ''Program Date'' = None" by (simp add: row_undated_def)
  have c: "isna NaN" by simp
  have k1: "create_composite_key row_undated UNIQUE_IDENTIFIERS = ''News|MISSING|10''"
    by (simp add: row_undated_def create_composite_key_def key_parts_def key_part_def
        UNIQUE_IDENTIFIERS_def strip_def isspace_def str_int_def str_nat.simps digit_char_def)
  have k2: "create_composite_key (row_undated(''Program Date'' \<mapsto> NaN)) UNIQUE_IDENTIFIERS = ''News|NULL|10''"
    by (simp add: row_undated_def create_composite_key_def key_parts_def key_part_def
        UNIQUE_IDENTIFIERS_def strip_def isspace_def str_int_def str_nat.simps digit_char_def)
  have "create_composite_key row_undated UNIQUE_IDENTIFIERS \<noteq>
      create_composite_key (row_undated(''Program Date'' \<mapsto> NaN)) UNIQUE_IDENTIFIERS"
    using a b c
    by (rule missing_vs_null_keys_differ [of "''Program Date''" UNIQUE_IDENTIFIERS row_undated NaN])
  with a b c k1 k2 show ?thesis by blast
qed

text \<open>
  C5 as stated fails in its last part: the two tokens are ordinary strings that data can
  equal. A cell holding the text \<open>NULL\<close> gives the same key as a null cell, and a cell
  holding the text \<open>MISSING\<close> the same key as an absent field.
\<close>

theorem sentinel_equals_data_value:
  "create_composite_key [''Program Date'' \<mapsto> SVal ''NULL''] [''Program Date''] =
     create_composite_key [''Program Date'' \<mapsto> NaN] [''Program Date''] \<and>
   create_composite_key [''Program Date'' \<mapsto> SVal ''MISSING''] [''Program Date''] =
     create_composite_key Map.empty [''Program Date'']"
  by (simp add: create_composite_key_def key_parts_def key_part_def strip_def isspace_def)

section \<open>The row index\<close>

lemma index_dict_Nil: "index_dict [] = Map.empty"
  by (simp add: index_dict_def)

lemma index_dict_snoc: "index_dict (keys @ [k]) = (index_dict keys)(k \<mapsto> length keys)"
  by (simp add: index_dict_def enumerate_append_eq)

lemma dom_index_dict: "dom (index_dict keys) = set keys"
proof (induction keys rule: rev_induct)
  case Nil
  then show ?case by (simp add: index_dict_Nil)
next
  case (snoc x xs)
  have "index_dict (xs @ [x]) = (index_dict xs)(x \<mapsto> length xs)"
    by (rule index_dict_snoc)
  then have "dom (index_dict (xs @ [x])) = dom ((index_dict xs)(x \<mapsto> length xs))"
    by (rule arg_cong)
  also have "\<dots> = insert x (dom (index_dict xs))" by simp
  finally show ?case using snoc by simp
qed

lemma index_dict_Some_iff:
  "index_dict keys k = Some i \<longleftrightarrow>
     i < length keys \<and> keys ! i = k \<and> (\<forall>j. i < j \<and> j < length keys \<longrightarrow> keys ! j \<noteq> k)"
proof (induction keys rule: rev_induct)
  case Nil
  then show ?case by (simp add: index_dict_Nil)
next
  case (snoc x xs)
  show ?case
  proof (cases "x = k")
    case True
    show ?thesis
    proof
      assume "index_dict (xs @ [x]) k = Some i"
      then have "i = length xs" using True by (simp add: index_dict_snoc)
      moreover have "\<forall>j. length xs < j \<and> j < Suc (length xs) \<longrightarrow> (xs @ [x]) ! j \<noteq> k"
        by auto
      ultimately show "i < length (xs @ [x]) \<and> (xs @ [x]) ! i = k \<and>
          (\<forall>j. i < j \<and> j < length (xs @ [x]) \<longrightarrow> (xs @ [x]) ! j \<noteq> k)"
        using True by simp
    next
      assume a: "i < length (xs @ [x]) \<and> (xs @ [x]) ! i = k \<and>
          (\<forall>j. i < j \<and> j < length (xs @ [x]) \<longrightarrow> (xs @ [x]) ! j \<noteq> k)"
      have "i = length xs"
      proof (rule ccontr)
        assume "i \<noteq> length xs"
        with a have il: "i < length xs" by simp
        from a have "\<forall>j. i < j \<and> j < length (xs @ [x]) \<longrightarrow> (xs @ [x]) ! j \<noteq> k" by blast
        then have "i < length xs \<and> length xs < length (xs @ [x]) \<longrightarrow> (xs @ [x]) ! length xs \<noteq> k"
          by (rule spec)
        with il have "(xs @ [x]) ! length xs \<noteq> k" by simp
        with True show False by simp
      qed
      then show "index_dict (xs @ [x]) k = Some i" using True by (simp add: index_dict_snoc)
    qed
  next
    case False
    have "index_dict (xs @ [x]) k = index_dict xs k"
      using False by (simp add: index_dict_snoc)
    moreover have "(i < length xs \<and> xs ! i = k \<and> (\<forall>j. i < j \<and> j < length xs \<longrightarrow> xs ! j \<noteq> k)) \<longleftrightarrow>
       (i < length (xs @ [x]) \<and> (xs @ [x]) ! i = k \<and>
          (\<forall>j. i < j \<and> j < length (xs @ [x]) \<longrightarrow> (xs @ [x]) ! j \<noteq> k))"
      (is "?A \<longleftrightarrow> ?B")
    proof
      assume A: ?A
      have "\<And>j. i < j \<Longrightarrow> j < length (xs @ [x]) \<Longrightarrow> (xs @ [x]) ! j \<noteq> k"
      proof -
        fix j assume "i < j" "j < length (xs @ [x])"
        then show "(xs @ [x]) ! j \<noteq> k"
          using A False by (cases "j < length xs") (simp_all add: nth_append)
      qed
      with A show ?B by (simp add: nth_append)
    next
      assume B: ?B
      have il: "i < length xs"
      proof (rule ccontr)
        assume "\<not> i < length xs"
        with B have "i = length xs" by simp
        with B False show False by simp
      qed
      have "\<And>j. i < j \<Longrightarrow> j < length xs \<Longrightarrow> xs ! j \<noteq> k"
      proof -
        fix j assume j: "i < j" "j < length xs"
        from B have "\<forall>j. i < j \<and> j < length (xs @ [x]) \<longrightarrow> (xs @ [x]) ! j \<noteq> k" by blast
        then have "i < j \<and> j < length (xs @ [x]) \<longrightarrow> (xs @ [x]) ! j \<noteq> k" by (rule spec)
        with j have "(xs @ [x]) ! j \<noteq> k" by simp
        with j show "xs ! j \<noteq> k" by (simp add: nth_append)
      qed
      with B il show ?A by (simp add: nth_append)
    qed
    ultimately show ?thesis using snoc by simp
  qed
qed

section \<open>What the loop over the keys builds\<close>

lemma compare_rows_series:
  "set cols \<subseteq> set (columns df1) \<inter> set (columns df2) \<Longrightarrow>
   \<exists>m. compare_rows (series_of df1 r1) (series_of df2 r2) cols = Inr m \<and>
       (m \<noteq> [] \<longleftrightarrow>
          list_ex (\<lambda>c. spec_values_differ (upcast (row_dtype df1) (r1 c))
                                            (upcast (row_dtype df2) (r2 c))) cols)"
proof (induction cols)
  case Nil
  then show ?case by simp
next
  case (Cons c cols)
  then obtain m where m: "compare_rows (series_of df1 r1) (series_of df2 r2) cols = Inr m"
    and iff: "m \<noteq> [] \<longleftrightarrow>
          list_ex (\<lambda>c. spec_values_differ (upcast (row_dtype df1) (r1 c))
                                            (upcast (row_dtype df2) (r2 c))) cols"
    by auto
  have c: "series_of df1 r1 c = Some (upcast (row_dtype df1) (r1 c))"
    "series_of df2 r2 c = Some (upcast (row_dtype df2) (r2 c))"
    using Cons.prems by (simp_all add: series_of_def)
  show ?case
    using iff by (simp add: c m spec_values_differ_def)
qed

lemma process_key_outcome:
  assumes r1: "\<And>i. d1 k = Some i \<Longrightarrow> i < length (rows df1)"
    and r2: "\<And>j. d2 k = Some j \<Longrightarrow> j < length (rows df2)"
    and cc: "set common \<subseteq> set (columns df1) \<inter> set (columns df2)"
    and present: "k \<in> dom d1 \<union> dom d2"
  shows "\<exists>d'. process_key df1 df2 d1 d2 common av k diffs = Inr d' \<and>
     map composite_key (identical_rows d') = map composite_key (identical_rows diffs) @
       (if spec_outcome df1 df2 d1 d2 common k = Identical then [k] else []) \<and>
     map composite_key (modified_rows d') = map composite_key (modified_rows diffs) @
       (if spec_outcome df1 df2 d1 d2 common k = Modified then [k] else []) \<and>
     map composite_key (rows_only_in_file1 d') = map composite_key (rows_only_in_file1 diffs) @
       (if spec_outcome df1 df2 d1 d2 common k = OnlyLeft then [k] else []) \<and>
     map composite_key (rows_only_in_file2 d') = map composite_key (rows_only_in_file2 diffs) @
       (if spec_outcome df1 df2 d1 d2 common k = OnlyRight then [k] else [])"
proof (cases "d1 k")
  case None
  with present obtain j where j: "d2 k = Some j" by auto
  with r2 have "j < length (rows df2)" by simp
  then show ?thesis
    using None j by (simp add: process_key_def spec_outcome_def iloc_def)
next
  case (Some i)
  with r1 have il: "i < length (rows df1)" by simp
  show ?thesis
  proof (cases "d2 k")
    case None
    then show ?thesis
      using Some il by (simp add: process_key_def spec_outcome_def iloc_def)
  next
    case (Some j)
    with r2 have jl: "j < length (rows df2)" by simp
    from compare_rows_series [OF cc, of "rows df1 ! i" "rows df2 ! j"]
    obtain m where m: "compare_rows (series_of df1 (rows df1 ! i))
          (series_of df2 (rows df2 ! j)) common = Inr m"
      and iff: "m \<noteq> [] \<longleftrightarrow>
          list_ex (\<lambda>c. spec_values_differ (row_value df1 i c) (row_value df2 j c)) common"
      unfolding row_value_def by blast
    show ?thesis
    proof (cases "m = []")
      case True
      with iff have "\<not> list_ex (\<lambda>c. spec_values_differ (row_value df1 i c) (row_value df2 j c)) common"
        by simp
      then show ?thesis
        using \<open>d1 k = Some i\<close> Some il jl m True
        by (simp add: process_key_def spec_outcome_def iloc_def)
    next
      case False
      with iff have "list_ex (\<lambda>c. spec_values_differ (row_value df1 i c) (row_value df2 j c)) common"
        by simp
      then show ?thesis
        using \<open>d1 k = Some i\<close> Some il jl m False
        by (simp add: process_key_def spec_outcome_def iloc_def)
    qed
  qed
qed

lemma classify_keys_outcome:
  assumes r1: "\<And>k i. d1 k = Some i \<Longrightarrow> i < length (rows df1)"
    and r2: "\<And>k j. d2 k = Some j \<Longrightarrow> j < length (rows df2)"
    and cc: "set common \<subseteq> set (columns df1) \<inter> set (columns df2)"
  shows "set ks \<subseteq> dom d1 \<union> dom d2 \<Longrightarrow>
   \<exists>d'. classify_keys df1 df2 d1 d2 common av ks diffs = Inr d' \<and>
     map composite_key (identical_rows d') = map composite_key (identical_rows diffs) @
       filter (\<lambda>k. spec_outcome df1 df2 d1 d2 common k = Identical) ks \<and>
     map composite_key (modified_rows d') = map composite_key (modified_rows diffs) @
       filter (\<lambda>k. spec_outcome df1 df2 d1 d2 common k = Modified) ks \<and>
     map composite_key (rows_only_in_file1 d') = map composite_key (rows_only_in_file1 diffs) @
       filter (\<lambda>k. spec_outcome df1 df2 d1 d2 common k = OnlyLeft) ks \<and>
     map composite_key (rows_only_in_file2 d') = map composite_key (rows_only_in_file2 diffs) @
       filter (\<lambda>k. spec_outcome df1 df2 d1 d2 common k = OnlyRight) ks"
proof (induction ks arbitrary: diffs)
  case Nil
  then show ?case by simp
next
  case (Cons k ks)
  from Cons.prems have k: "k \<in> dom d1 \<union> dom d2" and ks: "set ks \<subseteq> dom d1 \<union> dom d2"
    by simp_all
  have a1: "\<And>i. d1 k = Some i \<Longrightarrow> i < length (rows df1)" by (rule r1)
  have a2: "\<And>j. d2 k = Some j \<Longrightarrow> j < length (rows df2)" by (rule r2)
  have "\<exists>d'. process_key df1 df2 d1 d2 common av k diffs = Inr d' \<and>
     map composite_key (identical_rows d') = map composite_key (identical_rows diffs) @
       (if spec_outcome df1 df2 d1 d2 common k = Identical then [k] else []) \<and>
     map composite_key (modified_rows d') = map composite_key (modified_rows diffs) @
       (if spec_outcome df1 df2 d1 d2 common k = Modified then [k] else []) \<and>
     map composite_key (rows_only_in_file1 d') = map composite_key (rows_only_in_file1 diffs) @
       (if spec_outcome df1 df2 d1 d2 common k = OnlyLeft then [k] else []) \<and>
     map composite_key (rows_only_in_file2 d') = map composite_key (rows_only_in_file2 diffs) @
       (if spec_outcome df1 df2 d1 d2 common k = OnlyRight then [k] else [])"
    using a1 a2 cc k by (rule process_key_outcome)
  then
  obtain d' where step: "process_key df1 df2 d1 d2 common av k diffs = Inr d'"
    and s1: "map composite_key (identical_rows d') = map composite_key (identical_rows diffs) @
       (if spec_outcome df1 df2 d1 d2 common k = Identical then [k] else [])"
    and s2: "map composite_key (modified_rows d') = map composite_key (modified_rows diffs) @
       (if spec_outcome df1 df2 d1 d2 common k = Modified then [k] else [])"
    and s3: "map composite_key (rows_only_in_file1 d') = map composite_key (rows_only_in_file1 diffs) @
       (if spec_outcome df1 df2 d1 d2 common k = OnlyLeft then [k] else [])"
    and s4: "map composite_key (rows_only_in_file2 d') = map composite_key (rows_only_in_file2 diffs) @
       (if spec_outcome df1 df2 d1 d2 common k = OnlyRight then [k] else [])"
    by blast
  from Cons.IH [OF ks, of d']
  obtain d'' where rest: "classify_keys df1 df2 d1 d2 common av ks d' = Inr d''"
    and t1: "map composite_key (identical_rows d'') = map composite_key (identical_rows d') @
       filter (\<lambda>k. spec_outcome df1 df2 d1 d2 common k = Identical) ks"
    and t2: "map composite_key (modified_rows d'') = map composite_key (modified_rows d') @
       filter (\<lambda>k. spec_outcome df1 df2 d1 d2 common k = Modified) ks"
    and t3: "map composite_key (rows_only_in_file1 d'') = map composite_key (rows_only_in_file1 d') @
       filter (\<lambda>k. spec_outcome df1 df2 d1 d2 common k = OnlyLeft) ks"
    and t4: "map composite_key (rows_only_in_file2 d'') = map composite_key (rows_only_in_file2 d') @
       filter (\<lambda>k. spec_outcome df1 df2 d1 d2 common k = OnlyRight) ks"
    by blast
  have "classify_keys df1 df2 d1 d2 common av (k # ks) diffs = Inr d''"
    by (simp add: step rest)
  moreover have "map composite_key (identical_rows d'') = map composite_key (identical_rows diffs) @
       filter (\<lambda>k. spec_outcome df1 df2 d1 d2 common k = Identical) (k # ks)"
    by (simp add: t1 s1)
  moreover have "map composite_key (modified_rows d'') = map composite_key (modified_rows diffs) @
       filter (\<lambda>k. spec_outcome df1 df2 d1 d2 common k = Modified) (k # ks)"
    by (simp add: t2 s2)
  moreover have "map composite_key (rows_only_in_file1 d'') = map composite_key (rows_only_in_file1 diffs) @
       filter (\<lambda>k. spec_outcome df1 df2 d1 d2 common k = OnlyLeft) (k # ks)"
    by (simp add: t3 s3)
  moreover have "map composite_key (rows_only_in_file2 d'') = map composite_key (rows_only_in_file2 diffs) @
       filter (\<lambda>k. spec_outcome df1 df2 d1 d2 common k = OnlyRight) (k # ks)"
    by (simp add: t4 s4)
  ultimately show ?case by blast
qed

section \<open>What the analysis returns\<close>

lemma index_dict_range: "index_dict keys k = Some i \<Longrightarrow> i < length keys"
  by (simp add: index_dict_Some_iff)

lemma set_all_keys: "set (all_keys k1 k2) = set k1 \<union> set k2"
  by (simp add: all_keys_def)

lemma distinct_all_keys: "distinct (all_keys k1 k2)"
  by (simp add: all_keys_def)

lemma set_common_columns: "set (common_columns df1 df2) = set (columns df1) \<inter> set (columns df2)"
  by (auto simp: common_columns_def)

lemma set_unique_columns: "set (unique_columns df1 df2) = set (columns df1) - set (columns df2)"
  by (auto simp: unique_columns_def)

lemma length_composite_key_column: "length (composite_key_column ids df) = length (rows df)"
  by (simp add: composite_key_column_def)

lemma df1_dict_range: "df1_dict_of ids df1 df2 k = Some i \<Longrightarrow> i < length (rows df1)"
  unfolding df1_dict_of_def
  by (drule index_dict_range) (simp add: length_composite_key_column)

lemma df2_dict_range: "df2_dict_of ids df1 df2 k = Some j \<Longrightarrow> j < length (rows df2)"
  unfolding df2_dict_of_def
  by (drule index_dict_range) (simp add: length_composite_key_column)

lemma analyze_differences_with_keys:
  "\<exists>d. analyze_differences_with ids df1 df2 = Inr d \<and>
     map composite_key (identical_rows d) =
       filter (\<lambda>k. outcome_in ids df1 df2 k = Identical)
         (all_keys (composite_key_column (available_of ids df1 df2) df1)
                   (composite_key_column (available_of ids df1 df2) df2)) \<and>
     map composite_key (modified_rows d) =
       filter (\<lambda>k. outcome_in ids df1 df2 k = Modified)
         (all_keys (composite_key_column (available_of ids df1 df2) df1)
                   (composite_key_column (available_of ids df1 df2) df2)) \<and>
     map composite_key (rows_only_in_file1 d) =
       filter (\<lambda>k. outcome_in ids df1 df2 k = OnlyLeft)
         (all_keys (composite_key_column (available_of ids df1 df2) df1)
                   (composite_key_column (available_of ids df1 df2) df2)) \<and>
     map composite_key (rows_only_in_file2 d) =
       filter (\<lambda>k. outcome_in ids df1 df2 k = OnlyRight)
         (all_keys (composite_key_column (available_of ids df1 df2) df1)
                   (composite_key_column (available_of ids df1 df2) df2)) \<and>
     column_differences d =
       \<lparr>file1_unique_columns = unique_columns df1 df2, file2_unique_columns = unique_columns df2 df1\<rparr> \<and>
     n_identical_rows (summary d) = length (identical_rows d) \<and>
     n_modified_rows (summary d) = length (modified_rows d) \<and>
     n_rows_only_in_file1 (summary d) = length (rows_only_in_file1 d) \<and>
     n_rows_only_in_file2 (summary d) = length (rows_only_in_file2 d) \<and>
     available_identifiers (summary d) = available_of ids df1 df2 \<and>
     missing_identifiers (summary d) = missing_of ids df1 df2"
proof -
  define av where "av = available_of ids df1 df2"
  define k1 where "k1 = composite_key_column av df1"
  define k2 where "k2 = composite_key_column av df2"
  define d1 where "d1 = index_dict k1"
  define d2 where "d2 = index_dict k2"
  define common where "common = common_columns df1 df2"
  define init :: classification where
    "init = \<lparr>rows_only_in_file1 = [], rows_only_in_file2 = [], identical_rows = [], modified_rows = []\<rparr>"
  have d1: "d1 = df1_dict_of ids df1 df2" by (simp add: d1_def k1_def av_def df1_dict_of_def)
  have d2: "d2 = df2_dict_of ids df1 df2" by (simp add: d2_def k2_def av_def df2_dict_of_def)
  have r1: "\<And>k i. d1 k = Some i \<Longrightarrow> i < length (rows df1)"
    unfolding d1 by (rule df1_dict_range)
  have r2: "\<And>k j. d2 k = Some j \<Longrightarrow> j < length (rows df2)"
    unfolding d2 by (rule df2_dict_range)
  have cc: "set common \<subseteq> set (columns df1) \<inter> set (columns df2)"
    by (simp add: common_def set_common_columns)
  have ks: "set (all_keys k1 k2) \<subseteq> dom d1 \<union> dom d2"
    by (simp add: set_all_keys d1_def d2_def dom_index_dict)
  have "\<exists>c. classify_keys df1 df2 d1 d2 common av (all_keys k1 k2) init = Inr c \<and>
     map composite_key (identical_rows c) = map composite_key (identical_rows init) @
       filter (\<lambda>k. spec_outcome df1 df2 d1 d2 common k = Identical) (all_keys k1 k2) \<and>
     map composite_key (modified_rows c) = map composite_key (modified_rows init) @
       filter (\<lambda>k. spec_outcome df1 df2 d1 d2 common k = Modified) (all_keys k1 k2) \<and>
     map composite_key (rows_only_in_file1 c) = map composite_key (rows_only_in_file1 init) @
       filter (\<lambda>k. spec_outcome df1 df2 d1 d2 common k = OnlyLeft) (all_keys k1 k2) \<and>
     map composite_key (rows_only_in_file2 c) = map composite_key (rows_only_in_file2 init) @
       filter (\<lambda>k. spec_outcome df1 df2 d1 d2 common k = OnlyRight) (all_keys k1 k2)"
    using r1 r2 cc ks by (rule classify_keys_outcome)
  then obtain c where c: "classify_keys df1 df2 d1 d2 common av (all_keys k1 k2) init = Inr c"
    and c1: "map composite_key (identical_rows c) =
       filter (\<lambda>k. spec_outcome df1 df2 d1 d2 common k = Identical) (all_keys k1 k2)"
    and c2: "map composite_key (modified_rows c) =
       filter (\<lambda>k. spec_outcome df1 df2 d1 d2 common k = Modified) (all_keys k1 k2)"
    and c3: "map composite_key (rows_only_in_file1 c) =
       filter (\<lambda>k. spec_outcome df1 df2 d1 d2 common k = OnlyLeft) (all_keys k1 k2)"
    and c4: "map composite_key (rows_only_in_file2 c) =
       filter (\<lambda>k. spec_outcome df1 df2 d1 d2 common k = OnlyRight) (all_keys k1 k2)"
    by (auto simp: init_def)
  have o: "outcome_in ids df1 df2 = spec_outcome df1 df2 d1 d2 common"
    by (rule ext) (simp add: outcome_in_def d1 d2 common_def)
  have c': "classify_keys df1 df2
       (index_dict (composite_key_column (available_of ids df1 df2) df1))
       (index_dict (composite_key_column (available_of ids df1 df2) df2))
       (common_columns df1 df2) (available_of ids df1 df2)
       (all_keys (composite_key_column (available_of ids df1 df2) df1)
                 (composite_key_column (available_of ids df1 df2) df2))
       \<lparr>rows_only_in_file1 = [], rows_only_in_file2 = [], identical_rows = [], modified_rows = []\<rparr>
     = Inr c"
    using c by (simp only: av_def k1_def k2_def d1_def d2_def common_def init_def)
  have run: "analyze_differences_with ids df1 df2 =
           Inr \<lparr>rows_only_in_file1 = rows_only_in_file1 c,
                rows_only_in_file2 = rows_only_in_file2 c,
                identical_rows = identical_rows c,
                modified_rows = modified_rows c,
                column_differences =
                  \<lparr>file1_unique_columns = unique_columns df1 df2,
                   file2_unique_columns = unique_columns df2 df1\<rparr>,
                summary =
                  \<lparr>total_rows_file1 = length (rows df1),
                   total_rows_file2 = length (rows df2),
                   n_rows_only_in_file1 = length (rows_only_in_file1 c),
                   n_rows_only_in_file2 = length (rows_only_in_file2 c),
                   n_identical_rows = length (identical_rows c),
                   n_modified_rows = length (modified_rows c),
                   n_common_columns = length (common_columns df1 df2),
                   n_file1_unique_columns = length (unique_columns df1 df2),
                   n_file2_unique_columns = length (unique_columns df2 df1),
                   available_identifiers = available_of ids df1 df2,
                   missing_identifiers = missing_of ids df1 df2\<rparr>\<rparr>"
    by (simp add: analyze_differences_with_def Let_def c')
  show ?thesis
    unfolding o run av_def [symmetric] k1_def [symmetric] k2_def [symmetric]
    by (simp add: c1 c2 c3 c4)
qed

lemma dom_df1_dict_of:
  "dom (df1_dict_of ids df1 df2) = set (composite_key_column (available_of ids df1 df2) df1)"
  by (simp add: df1_dict_of_def dom_index_dict)

lemma dom_df2_dict_of:
  "dom (df2_dict_of ids df1 df2) = set (composite_key_column (available_of ids df1 df2) df2)"
  by (simp add: df2_dict_of_def dom_index_dict)

lemma outcome_in_Absent_iff:
  "outcome_in ids df1 df2 k = Absent \<longleftrightarrow>
     k \<notin> dom (df1_dict_of ids df1 df2) \<and> k \<notin> dom (df2_dict_of ids df1 df2)"
  by (auto simp: outcome_in_def spec_outcome_def split: option.splits)



lemma outcome_in_both:
  assumes "df1_dict_of ids df1 df2 k = Some i" and "df2_dict_of ids df1 df2 k = Some j"
  shows "outcome_in ids df1 df2 k =
     (if \<exists>c\<in>set (common_columns df1 df2). spec_values_differ (row_value df1 i c) (row_value df2 j c)
      then Modified else Identical)"
  using assms by (simp add: outcome_in_def spec_outcome_def list_ex_iff)

lemma outcome_filters_cover:
  "set (filter (\<lambda>k. f k = Identical) ks) \<union> set (filter (\<lambda>k. f k = Modified) ks) \<union>
   set (filter (\<lambda>k. f k = OnlyLeft) ks) \<union> set (filter (\<lambda>k. f k = OnlyRight) ks) =
   {k \<in> set ks. f k \<noteq> Absent}"
proof -
  have "f k \<noteq> Absent \<longleftrightarrow> f k = Identical \<or> f k = Modified \<or> f k = OnlyLeft \<or> f k = OnlyRight"
    for k by (cases "f k") simp_all
  then show ?thesis by auto
qed

lemma outcome_filters_distinct:
  assumes "distinct ks"
  shows "distinct (filter (\<lambda>k. f k = Identical) ks @ filter (\<lambda>k. f k = Modified) ks @
     filter (\<lambda>k. f k = OnlyLeft) ks @ filter (\<lambda>k. f k = OnlyRight) ks)"
  using assms by auto

section \<open>The reconciliation\<close>

text \<open>
  C1. The analysis returns, and the keys of its four collections together are exactly the
  keys of the two dictionaries. The four key lists put one after the other have no
  repetition: no key is in two collections, and none is twice in one.
\<close>

theorem analyze_differences_partition:
  "\<exists>d. analyze_differences_with ids df1 df2 = Inr d \<and>
     set (map composite_key (identical_rows d)) \<union> set (map composite_key (modified_rows d)) \<union>
     set (map composite_key (rows_only_in_file1 d)) \<union> set (map composite_key (rows_only_in_file2 d)) =
       dom (df1_dict_of ids df1 df2) \<union> dom (df2_dict_of ids df1 df2) \<and>
     distinct (map composite_key (identical_rows d) @ map composite_key (modified_rows d) @
       map composite_key (rows_only_in_file1 d) @ map composite_key (rows_only_in_file2 d))"
proof -
  define ks where "ks = all_keys (composite_key_column (available_of ids df1 df2) df1)
                   (composite_key_column (available_of ids df1 df2) df2)"
  from analyze_differences_with_keys [of ids df1 df2]
  obtain d where d: "analyze_differences_with ids df1 df2 = Inr d"
    and i: "map composite_key (identical_rows d) = filter (\<lambda>k. outcome_in ids df1 df2 k = Identical) ks"
    and m: "map composite_key (modified_rows d) = filter (\<lambda>k. outcome_in ids df1 df2 k = Modified) ks"
    and l: "map composite_key (rows_only_in_file1 d) = filter (\<lambda>k. outcome_in ids df1 df2 k = OnlyLeft) ks"
    and r: "map composite_key (rows_only_in_file2 d) = filter (\<lambda>k. outcome_in ids df1 df2 k = OnlyRight) ks"
    unfolding ks_def by blast
  have ks: "set ks = dom (df1_dict_of ids df1 df2) \<union> dom (df2_dict_of ids df1 df2)"
    by (simp add: ks_def set_all_keys dom_df1_dict_of dom_df2_dict_of)
  have "{k \<in> set ks. outcome_in ids df1 df2 k \<noteq> Absent} = set ks"
    unfolding outcome_in_Absent_iff ks by blast
  then have cover: "set (map composite_key (identical_rows d)) \<union> set (map composite_key (modified_rows d)) \<union>
     set (map composite_key (rows_only_in_file1 d)) \<union> set (map composite_key (rows_only_in_file2 d)) =
       dom (df1_dict_of ids df1 df2) \<union> dom (df2_dict_of ids df1 df2)"
    unfolding i m l r outcome_filters_cover ks by simp
  have "distinct ks" by (simp add: ks_def distinct_all_keys)
  then have "distinct (map composite_key (identical_rows d) @ map composite_key (modified_rows d) @
       map composite_key (rows_only_in_file1 d) @ map composite_key (rows_only_in_file2 d))"
    unfolding i m l r by (rule outcome_filters_distinct)
  with d cover show ?thesis by blast
qed

text \<open>The definitions that evaluate the analysis on a given pair of sheets.\<close>

lemmas eval_defs = analyze_differences_def analyze_differences_with_def available_of_def missing_of_def
   UNIQUE_IDENTIFIERS_def composite_key_column_def create_composite_key_def key_parts_def key_part_def
   series_of_def strip_def isspace_def index_dict_def all_keys_def common_columns_def unique_columns_def
   process_key_def iloc_def enumerate_eq_zip extract_identifier_values_def str_int_def str_nat.simps
   digit_char_def blank_row_def df1_dict_of_def df2_dict_of_def row_dtype_def interleaved_dtype_def
   row_value_def text_columns_def

lemma analyze_sheet_versions:
  "\<exists>d. analyze_differences_with UNIQUE_IDENTIFIERS sheet_v1 sheet_v2 = Inr d \<and>
     map composite_key (identical_rows d) = [''B|2024-01-01|11:00''] \<and>
     map composite_key (modified_rows d) = [''A|2024-01-01|10:00''] \<and>
     map composite_key (rows_only_in_file1 d) = [''D|2024-01-01|12:00''] \<and>
     map composite_key (rows_only_in_file2 d) = [''C|2024-01-01|09:00'']"
  by (simp add: eval_defs sheet_v1_def sheet_v2_def)

theorem analyze_differences_partition_witness:
  "\<exists>d. analyze_differences_with UNIQUE_IDENTIFIERS sheet_v1 sheet_v2 = Inr d \<and>
     map composite_key (identical_rows d) = [''B|2024-01-01|11:00''] \<and>
     map composite_key (modified_rows d) = [''A|2024-01-01|10:00''] \<and>
     map composite_key (rows_only_in_file1 d) = [''D|2024-01-01|12:00''] \<and>
     map composite_key (rows_only_in_file2 d) = [''C|2024-01-01|09:00''] \<and>
     dom (df1_dict_of UNIQUE_IDENTIFIERS sheet_v1 sheet_v2) \<union>
       dom (df2_dict_of UNIQUE_IDENTIFIERS sheet_v1 sheet_v2) =
       {''C|2024-01-01|09:00'', ''D|2024-01-01|12:00'', ''A|2024-01-01|10:00'', ''B|2024-01-01|11:00''}"
proof -
  from analyze_sheet_versions obtain d where
    d: "analyze_differences_with UNIQUE_IDENTIFIERS sheet_v1 sheet_v2 = Inr d"
    and v: "map composite_key (identical_rows d) = [''B|2024-01-01|11:00'']"
      "map composite_key (modified_rows d) = [''A|2024-01-01|10:00'']"
      "map composite_key (rows_only_in_file1 d) = [''D|2024-01-01|12:00'']"
      "map composite_key (rows_only_in_file2 d) = [''C|2024-01-01|09:00'']"
    by (elim exE conjE)
  from analyze_differences_partition [of UNIQUE_IDENTIFIERS sheet_v1 sheet_v2]
  obtain d' where d': "analyze_differences_with UNIQUE_IDENTIFIERS sheet_v1 sheet_v2 = Inr d'"
    and cover: "set (map composite_key (identical_rows d')) \<union> set (map composite_key (modified_rows d')) \<union>
     set (map composite_key (rows_only_in_file1 d')) \<union> set (map composite_key (rows_only_in_file2 d')) =
       dom (df1_dict_of UNIQUE_IDENTIFIERS sheet_v1 sheet_v2) \<union>
       dom (df2_dict_of UNIQUE_IDENTIFIERS sheet_v1 sheet_v2)"
    by (elim exE conjE)
  have eq: "d' = d" using d d' by simp
  show ?thesis
  proof (intro exI conjI)
    show "analyze_differences_with UNIQUE_IDENTIFIERS sheet_v1 sheet_v2 = Inr d" by (rule d)
    show "map composite_key (identical_rows d) = [''B|2024-01-01|11:00'']" by (rule v)
    show "map composite_key (modified_rows d) = [''A|2024-01-01|10:00'']" by (rule v)
    show "map composite_key (rows_only_in_file1 d) = [''D|2024-01-01|12:00'']" by (rule v)
    show "map composite_key (rows_only_in_file2 d) = [''C|2024-01-01|09:00'']" by (rule v)
    show "dom (df1_dict_of UNIQUE_IDENTIFIERS sheet_v1 sheet_v2) \<union>
       dom (df2_dict_of UNIQUE_IDENTIFIERS sheet_v1 sheet_v2) =
       {''C|2024-01-01|09:00'', ''D|2024-01-01|12:00'', ''A|2024-01-01|10:00'', ''B|2024-01-01|11:00''}"
      unfolding cover [symmetric] eq v by simp
  qed
qed




lemma spec_values_differ_same: "\<not> spec_values_differ v v"
  by (simp add: spec_values_differ_def)

lemma outcome_in_self:
  assumes "k \<in> dom (df1_dict_of ids df df)"
  shows "outcome_in ids df df k = Identical"
proof -
  from assms obtain i where i: "df1_dict_of ids df df k = Some i" by blast
  then have j: "df2_dict_of ids df df k = Some i"
    by (simp add: df1_dict_of_def df2_dict_of_def)
  show ?thesis
    unfolding outcome_in_both [OF i j] by (simp add: spec_values_differ_same)
qed

lemma filter_none: "(\<And>x. x \<in> set xs \<Longrightarrow> \<not> P x) \<Longrightarrow> filter P xs = []"
  by (induction xs) simp_all

lemma filter_all: "(\<And>x. x \<in> set xs \<Longrightarrow> P x) \<Longrightarrow> filter P xs = xs"
  by (induction xs) simp_all

text \<open>
  C7. A frame analysed against itself: no modified row, no row on one side only, and as
  many identical rows as the frame has distinct composite keys. The counts of the summary
  say the same.
\<close>

theorem analyze_differences_reflexive:
  "\<exists>d. analyze_differences_with ids df df = Inr d \<and>
     modified_rows d = [] \<and> rows_only_in_file1 d = [] \<and> rows_only_in_file2 d = [] \<and>
     length (identical_rows d) = card (dom (df1_dict_of ids df df)) \<and>
     n_modified_rows (summary d) = 0 \<and> n_rows_only_in_file1 (summary d) = 0 \<and>
     n_rows_only_in_file2 (summary d) = 0 \<and>
     n_identical_rows (summary d) = card (set (composite_key_column (available_of ids df df) df))"
proof -
  define k1 where "k1 = composite_key_column (available_of ids df df) df"
  define ks where "ks = all_keys k1 k1"
  from analyze_differences_with_keys [of ids df df]
  obtain d where d: "analyze_differences_with ids df df = Inr d"
    and i: "map composite_key (identical_rows d) = filter (\<lambda>k. outcome_in ids df df k = Identical) ks"
    and m: "map composite_key (modified_rows d) = filter (\<lambda>k. outcome_in ids df df k = Modified) ks"
    and l: "map composite_key (rows_only_in_file1 d) = filter (\<lambda>k. outcome_in ids df df k = OnlyLeft) ks"
    and r: "map composite_key (rows_only_in_file2 d) = filter (\<lambda>k. outcome_in ids df df k = OnlyRight) ks"
    and n: "n_identical_rows (summary d) = length (identical_rows d)"
      "n_modified_rows (summary d) = length (modified_rows d)"
      "n_rows_only_in_file1 (summary d) = length (rows_only_in_file1 d)"
      "n_rows_only_in_file2 (summary d) = length (rows_only_in_file2 d)"
    unfolding ks_def k1_def by (elim exE conjE)
  have ks: "set ks = dom (df1_dict_of ids df df)"
    by (simp add: ks_def k1_def set_all_keys dom_df1_dict_of)
  have all: "\<And>k. k \<in> set ks \<Longrightarrow> outcome_in ids df df k = Identical"
    unfolding ks by (rule outcome_in_self)
  have "map composite_key (modified_rows d) = []"
    unfolding m by (rule filter_none) (simp add: all)
  then have m0: "modified_rows d = []" by simp
  have "map composite_key (rows_only_in_file1 d) = []"
    unfolding l by (rule filter_none) (simp add: all)
  then have l0: "rows_only_in_file1 d = []" by simp
  have "map composite_key (rows_only_in_file2 d) = []"
    unfolding r by (rule filter_none) (simp add: all)
  then have r0: "rows_only_in_file2 d = []" by simp
  have "map composite_key (identical_rows d) = ks"
    unfolding i by (rule filter_all) (simp add: all)
  then have "length (identical_rows d) = length ks"
    by (metis length_map)
  also have "\<dots> = card (set ks)"
    by (simp add: ks_def distinct_all_keys distinct_card)
  finally have i0: "length (identical_rows d) = card (dom (df1_dict_of ids df df))"
    unfolding ks .
  have i1: "length (identical_rows d) = card (set (composite_key_column (available_of ids df df) df))"
    using i0 by (simp add: dom_df1_dict_of)
  show ?thesis
    using d m0 l0 r0 i0 i1 by (simp add: n)
qed

theorem analyze_differences_reflexive_witness:
  "\<exists>d. analyze_differences_with UNIQUE_IDENTIFIERS sheet_v1 sheet_v1 = Inr d \<and>
     modified_rows d = [] \<and> rows_only_in_file1 d = [] \<and> rows_only_in_file2 d = [] \<and>
     length (identical_rows d) = 3 \<and>
     composite_key_column (available_of UNIQUE_IDENTIFIERS sheet_v1 sheet_v1) sheet_v1 =
       [''A|2024-01-01|10:00'', ''B|2024-01-01|11:00'', ''A|2024-01-01|10:00'', ''D|2024-01-01|12:00'']"
proof -
  have col: "composite_key_column (available_of UNIQUE_IDENTIFIERS sheet_v1 sheet_v1) sheet_v1 =
       [''A|2024-01-01|10:00'', ''B|2024-01-01|11:00'', ''A|2024-01-01|10:00'', ''D|2024-01-01|12:00'']"
    by (simp add: eval_defs sheet_v1_def)
  have card: "card (set (composite_key_column (available_of UNIQUE_IDENTIFIERS sheet_v1 sheet_v1) sheet_v1)) = 3"
    unfolding col card_set by simp
  from analyze_differences_reflexive [of UNIQUE_IDENTIFIERS sheet_v1]
  obtain d where d: "analyze_differences_with UNIQUE_IDENTIFIERS sheet_v1 sheet_v1 = Inr d"
    and z: "modified_rows d = []" "rows_only_in_file1 d = []" "rows_only_in_file2 d = []"
    and i: "length (identical_rows d) = card (dom (df1_dict_of UNIQUE_IDENTIFIERS sheet_v1 sheet_v1))"
    by (elim exE conjE)
  have i': "length (identical_rows d) = 3"
    unfolding i dom_df1_dict_of by (rule card)
  show ?thesis
  proof (intro exI conjI)
    show "analyze_differences_with UNIQUE_IDENTIFIERS sheet_v1 sheet_v1 = Inr d" by (rule d)
  qed (rule z i' col)+
qed

section \<open>Rows with the same key\<close>

text \<open>
  C6, as the code has it. When rows \<open>i < j\<close> of a frame have the same composite key, the
  dictionary built from the key column holds position \<open>i\<close> under no key; it holds that key
  with the position of the last row that has it, which is \<open>j\<close> or later, and is \<open>j\<close> when
  no later row has the key. The dictionary is a value of the model: building it raises
  nothing.
\<close>

theorem index_dict_last_write_wins:
  assumes "i < j" and "j < length (rows df)"
    and "composite_key_column ids df ! i = composite_key_column ids df ! j"
  shows "(\<forall>k. index_dict (composite_key_column ids df) k \<noteq> Some i) \<and>
     (\<exists>l. index_dict (composite_key_column ids df) (composite_key_column ids df ! j) = Some l \<and>
          j \<le> l \<and> l < length (rows df) \<and>
          composite_key_column ids df ! l = composite_key_column ids df ! j \<and>
          (\<forall>m. l < m \<and> m < length (rows df) \<longrightarrow>
             composite_key_column ids df ! m \<noteq> composite_key_column ids df ! j)) \<and>
     ((\<forall>l. j < l \<and> l < length (rows df) \<longrightarrow>
          composite_key_column ids df ! l \<noteq> composite_key_column ids df ! j) \<longrightarrow>
        index_dict (composite_key_column ids df) (composite_key_column ids df ! j) = Some j)"
proof -
  define keys where "keys = composite_key_column ids df"
  have len: "length keys = length (rows df)"
    by (simp add: keys_def length_composite_key_column)
  have same: "keys ! i = keys ! j" using assms(3) by (simp add: keys_def)
  have jl: "j < length keys" using assms(2) len by simp
  have p1: "\<forall>k. index_dict keys k \<noteq> Some i"
  proof (intro allI notI)
    fix k assume "index_dict keys k = Some i"
    then have "keys ! i = k" and "\<forall>j. i < j \<and> j < length keys \<longrightarrow> keys ! j \<noteq> k"
      by (simp_all add: index_dict_Some_iff)
    then have "keys ! j \<noteq> keys ! i" using assms(1) jl by blast
    with same show False by simp
  qed
  have "keys ! j \<in> dom (index_dict keys)"
    using jl by (simp add: dom_index_dict)
  then obtain l where l: "index_dict keys (keys ! j) = Some l" by blast
  then have ll: "l < length keys" and lk: "keys ! l = keys ! j"
    and last: "\<forall>j'. l < j' \<and> j' < length keys \<longrightarrow> keys ! j' \<noteq> keys ! j"
    by (simp_all add: index_dict_Some_iff)
  have "j \<le> l"
  proof (rule ccontr)
    assume "\<not> j \<le> l"
    then have "l < j \<and> j < length keys" using jl by simp
    with last have "keys ! j \<noteq> keys ! j" by blast
    then show False by simp
  qed
  with l ll lk last have p2: "\<exists>l. index_dict keys (keys ! j) = Some l \<and> j \<le> l \<and> l < length (rows df) \<and>
      keys ! l = keys ! j \<and> (\<forall>m. l < m \<and> m < length (rows df) \<longrightarrow> keys ! m \<noteq> keys ! j)"
    using len by auto
  have p3: "(\<forall>l. j < l \<and> l < length (rows df) \<longrightarrow> keys ! l \<noteq> keys ! j) \<longrightarrow>
      index_dict keys (keys ! j) = Some j"
    using jl len by (simp add: index_dict_Some_iff)
  show ?thesis unfolding keys_def [symmetric] by (intro conjI p1 p2 p3)
qed

theorem index_dict_last_write_wins_witness:
  "composite_key_column UNIQUE_IDENTIFIERS sheet_v1 =
     [''A|2024-01-01|10:00'', ''B|2024-01-01|11:00'', ''A|2024-01-01|10:00'', ''D|2024-01-01|12:00''] \<and>
   index_dict (composite_key_column UNIQUE_IDENTIFIERS sheet_v1) ''A|2024-01-01|10:00'' = Some 2 \<and>
   (\<forall>k. index_dict (composite_key_column UNIQUE_IDENTIFIERS sheet_v1) k \<noteq> Some 0)"
proof -
  have col: "composite_key_column UNIQUE_IDENTIFIERS sheet_v1 =
     [''A|2024-01-01|10:00'', ''B|2024-01-01|11:00'', ''A|2024-01-01|10:00'', ''D|2024-01-01|12:00'']"
    by (simp add: eval_defs sheet_v1_def)
  have a: "(0::nat) < 2" by simp
  have b: "2 < length (rows sheet_v1)" by (simp add: sheet_v1_def)
  have c: "composite_key_column UNIQUE_IDENTIFIERS sheet_v1 ! 0 =
      composite_key_column UNIQUE_IDENTIFIERS sheet_v1 ! 2"
    unfolding col by simp
  have k2: "composite_key_column UNIQUE_IDENTIFIERS sheet_v1 ! 2 = ''A|2024-01-01|10:00''"
    unfolding col by simp
  have last: "\<forall>l. 2 < l \<and> l < length (rows sheet_v1) \<longrightarrow>
      composite_key_column UNIQUE_IDENTIFIERS sheet_v1 ! l \<noteq>
      composite_key_column UNIQUE_IDENTIFIERS sheet_v1 ! 2"
  proof (intro allI impI)
    fix l assume "2 < l \<and> l < length (rows sheet_v1)"
    then have "2 < l \<and> l < 4" by (simp add: sheet_v1_def)
    then have "l = 3" by arith
    then show "composite_key_column UNIQUE_IDENTIFIERS sheet_v1 ! l \<noteq>
      composite_key_column UNIQUE_IDENTIFIERS sheet_v1 ! 2"
      unfolding col by simp
  qed
  note w = index_dict_last_write_wins [OF a b c]
  from w have never: "\<forall>k. index_dict (composite_key_column UNIQUE_IDENTIFIERS sheet_v1) k \<noteq> Some 0"
    by (rule conjunct1)
  have "(\<forall>l. 2 < l \<and> l < length (rows sheet_v1) \<longrightarrow>
      composite_key_column UNIQUE_IDENTIFIERS sheet_v1 ! l \<noteq>
      composite_key_column UNIQUE_IDENTIFIERS sheet_v1 ! 2) \<longrightarrow>
      index_dict (composite_key_column UNIQUE_IDENTIFIERS sheet_v1)
        (composite_key_column UNIQUE_IDENTIFIERS sheet_v1 ! 2) = Some 2"
    by (rule w [THEN conjunct2, THEN conjunct2])
  with last have "index_dict (composite_key_column UNIQUE_IDENTIFIERS sheet_v1)
        (composite_key_column UNIQUE_IDENTIFIERS sheet_v1 ! 2) = Some 2"
    by (rule rev_mp)
  then have at: "index_dict (composite_key_column UNIQUE_IDENTIFIERS sheet_v1) ''A|2024-01-01|10:00'' = Some 2"
    unfolding k2 .
  from col at never show ?thesis by (intro conjI)
qed

text \<open>
  C6 as stated fails when a third row has the key: the three rows of the sheet have one
  key, and for the pair of rows 0 and 1 the dictionary holds position 2, not 1.
\<close>

theorem index_dict_third_row_wins:
  "composite_key_column UNIQUE_IDENTIFIERS repeat_sheet ! 0 = ''A|2024-01-01|10:00'' \<and>
   composite_key_column UNIQUE_IDENTIFIERS repeat_sheet ! 1 = ''A|2024-01-01|10:00'' \<and>
   index_dict (composite_key_column UNIQUE_IDENTIFIERS repeat_sheet) ''A|2024-01-01|10:00'' = Some 2 \<and>
   index_dict (composite_key_column UNIQUE_IDENTIFIERS repeat_sheet) ''A|2024-01-01|10:00'' \<noteq> Some 1"
  by (simp add: eval_defs repeat_sheet_def)

section \<open>Column sets\<close>

lemma analyze_differences_returns:
  "\<exists>d. analyze_differences df1 df2 = Inr d \<and>
     column_differences d =
       \<lparr>file1_unique_columns = unique_columns df1 df2, file2_unique_columns = unique_columns df2 df1\<rparr>"
proof -
  from analyze_differences_with_keys [of UNIQUE_IDENTIFIERS df1 df2]
  obtain d where "analyze_differences_with UNIQUE_IDENTIFIERS df1 df2 = Inr d"
    and "column_differences d =
       \<lparr>file1_unique_columns = unique_columns df1 df2, file2_unique_columns = unique_columns df2 df1\<rparr>"
    by (elim exE conjE)
  then show ?thesis by (simp add: analyze_differences_def)
qed

lemma distinct_common_columns: "distinct (common_columns df1 df2)"
  by (simp add: common_columns_def)

lemma distinct_unique_columns: "distinct (unique_columns df1 df2)"
  by (simp add: unique_columns_def)

text \<open>
  C8. For any two frames the comparison of the sheet returns, and in its statistics the
  columns unique to the first file are those of the first frame that the second lacks,
  likewise for the second, and the common columns are the intersection. The analysis
  reports the same unique columns. The three lists together cover the union of the two
  column sets and, put one after the other, have no repetition, so the three sets are
  pairwise disjoint.
\<close>

theorem column_sets_partition:
  "\<exists>r. compare_sheet df1 df2 = Inr r \<and>
     set (stats_file1_unique_columns (statistics r)) = set (columns df1) - set (columns df2) \<and>
     set (stats_file2_unique_columns (statistics r)) = set (columns df2) - set (columns df1) \<and>
     set (stats_common_columns (statistics r)) = set (columns df1) \<inter> set (columns df2) \<and>
     file1_unique_columns (column_differences (differences r)) = stats_file1_unique_columns (statistics r) \<and>
     file2_unique_columns (column_differences (differences r)) = stats_file2_unique_columns (statistics r) \<and>
     set (stats_file1_unique_columns (statistics r)) \<union> set (stats_common_columns (statistics r)) \<union>
       set (stats_file2_unique_columns (statistics r)) = set (columns df1) \<union> set (columns df2) \<and>
     distinct (stats_file1_unique_columns (statistics r) @ stats_common_columns (statistics r) @
       stats_file2_unique_columns (statistics r))"
proof -
  from analyze_differences_returns [of df1 df2]
  obtain d where d: "analyze_differences df1 df2 = Inr d"
    and cd: "column_differences d =
       \<lparr>file1_unique_columns = unique_columns df1 df2, file2_unique_columns = unique_columns df2 df1\<rparr>"
    by (elim exE conjE)
  define r where "r = \<lparr>statistics =
            \<lparr>file1_rows = length (rows df1),
             file1_columns = length (columns df1),
             file2_rows = length (rows df2),
             file2_columns = length (columns df2),
             stats_common_columns = common_columns df1 df2,
             stats_file1_unique_columns = unique_columns df1 df2,
             stats_file2_unique_columns = unique_columns df2 df1\<rparr>, differences = d\<rparr>"
  have run: "compare_sheet df1 df2 = Inr r"
    by (simp add: compare_sheet_def Let_def d r_def)
  have s1: "stats_file1_unique_columns (statistics r) = unique_columns df1 df2"
    and s2: "stats_file2_unique_columns (statistics r) = unique_columns df2 df1"
    and s3: "stats_common_columns (statistics r) = common_columns df1 df2"
    and s4: "differences r = d"
    by (simp_all add: r_def)
  have dist: "distinct (unique_columns df1 df2 @ common_columns df1 df2 @ unique_columns df2 df1)"
    by (auto simp: distinct_common_columns distinct_unique_columns set_common_columns
        set_unique_columns)
  have cover: "set (unique_columns df1 df2) \<union> set (common_columns df1 df2) \<union>
      set (unique_columns df2 df1) = set (columns df1) \<union> set (columns df2)"
    by (auto simp: set_common_columns set_unique_columns)
  show ?thesis
    apply (rule exI [of _ r])
    unfolding s1 s2 s3 s4 cd
    using run dist cover
    by (simp add: set_common_columns set_unique_columns)
qed

theorem column_sets_partition_witness:
  "\<exists>r. compare_sheet sheet_v1 sheet_v2 = Inr r \<and>
     stats_file1_unique_columns (statistics r) = [] \<and>
     stats_file2_unique_columns (statistics r) = [''note''] \<and>
     stats_common_columns (statistics r) =
       [''Channel Name'', ''Program Date'', ''Clip Start Time'', ''val''] \<and>
     file2_unique_columns (column_differences (differences r)) = [''note'']"
proof -
  from column_sets_partition [of sheet_v1 sheet_v2]
  obtain r where r: "compare_sheet sheet_v1 sheet_v2 = Inr r"
    and f2: "file2_unique_columns (column_differences (differences r)) =
      stats_file2_unique_columns (statistics r)"
    by (elim exE conjE)
  from r have st: "statistics r =
            \<lparr>file1_rows = length (rows sheet_v1),
             file1_columns = length (columns sheet_v1),
             file2_rows = length (rows sheet_v2),
             file2_columns = length (columns sheet_v2),
             stats_common_columns = common_columns sheet_v1 sheet_v2,
             stats_file1_unique_columns = unique_columns sheet_v1 sheet_v2,
             stats_file2_unique_columns = unique_columns sheet_v2 sheet_v1\<rparr>"
    by (auto simp: compare_sheet_def Let_def split: sum.splits)
  have u1: "unique_columns sheet_v1 sheet_v2 = []"
    by (simp add: unique_columns_def sheet_v1_def sheet_v2_def)
  have u2: "unique_columns sheet_v2 sheet_v1 = [''note'']"
    by (simp add: unique_columns_def sheet_v1_def sheet_v2_def)
  have c: "common_columns sheet_v1 sheet_v2 = [''Channel Name'', ''Program Date'', ''Clip Start Time'', ''val'']"
    by (simp add: common_columns_def sheet_v1_def sheet_v2_def)
  show ?thesis
    apply (rule exI [of _ r])
    unfolding f2 st
    using r by (simp add: u1 u2 c)
qed

section \<open>The overall report\<close>

lemma fold_add_sheet_modifications:
  "total_modifications (fold add_sheet rs acc) =
     total_modifications acc + sum_list (map (\<lambda>item. n_modified_rows (summary (differences (snd item)))) rs)"
  by (induction rs arbitrary: acc) (simp_all add: add_sheet_def Let_def)

lemma fold_add_sheet_missing1:
  "total_missing_rows_file1 (fold add_sheet rs acc) =
     total_missing_rows_file1 acc +
     sum_list (map (\<lambda>item. n_rows_only_in_file1 (summary (differences (snd item)))) rs)"
  by (induction rs arbitrary: acc) (simp_all add: add_sheet_def Let_def)

lemma fold_add_sheet_missing2:
  "total_missing_rows_file2 (fold add_sheet rs acc) =
     total_missing_rows_file2 acc +
     sum_list (map (\<lambda>item. n_rows_only_in_file2 (summary (differences (snd item)))) rs)"
  by (induction rs arbitrary: acc) (simp_all add: add_sheet_def Let_def)

lemma fold_add_sheet_with_differences:
  "sheets_with_differences (fold add_sheet rs acc) =
     sheets_with_differences acc +
     length (filter (\<lambda>item. n_modified_rows (summary (differences (snd item))) \<noteq> 0 \<or>
                            n_rows_only_in_file1 (summary (differences (snd item))) \<noteq> 0 \<or>
                            n_rows_only_in_file2 (summary (differences (snd item))) \<noteq> 0) rs)"
  by (induction rs arbitrary: acc) (simp_all add: add_sheet_def Let_def)

lemma fold_add_sheet_total_sheets:
  "total_sheets (fold add_sheet rs acc) = total_sheets acc"
  by (induction rs arbitrary: acc) (simp_all add: add_sheet_def Let_def)

lemma sum_list_zero_iff: "sum_list (map f rs) = (0::nat) \<longleftrightarrow> (\<forall>x\<in>set rs. f x = 0)"
  by (induction rs) simp_all

text \<open>
  C9. The report says the files are identical exactly when every compared sheet has no
  modified row, no row only in the first file and no row only in the second, by the counts
  of its summary. The three totals are the sums of these counts over the sheets, a sheet
  counts as one with differences exactly when one of its three counts is not zero, and
  the number of sheets is the number of results.
\<close>

theorem generate_summary_report_rollup:
  "(files_identical (generate_summary_report comparison_results) \<longleftrightarrow>
      (\<forall>item\<in>set comparison_results.
         n_modified_rows (summary (differences (snd item))) = 0 \<and>
         n_rows_only_in_file1 (summary (differences (snd item))) = 0 \<and>
         n_rows_only_in_file2 (summary (differences (snd item))) = 0)) \<and>
   total_modifications (generate_summary_report comparison_results) =
     sum_list (map (\<lambda>item. n_modified_rows (summary (differences (snd item)))) comparison_results) \<and>
   total_missing_rows_file1 (generate_summary_report comparison_results) =
     sum_list (map (\<lambda>item. n_rows_only_in_file1 (summary (differences (snd item)))) comparison_results) \<and>
   total_missing_rows_file2 (generate_summary_report comparison_results) =
     sum_list (map (\<lambda>item. n_rows_only_in_file2 (summary (differences (snd item)))) comparison_results) \<and>
   sheets_with_differences (generate_summary_report comparison_results) =
     length (filter (\<lambda>item. n_modified_rows (summary (differences (snd item))) \<noteq> 0 \<or>
                            n_rows_only_in_file1 (summary (differences (snd item))) \<noteq> 0 \<or>
                            n_rows_only_in_file2 (summary (differences (snd item))) \<noteq> 0)
       comparison_results) \<and>
   total_sheets (generate_summary_report comparison_results) = length comparison_results"
proof -
  have v: "files_identical (generate_summary_report comparison_results) \<longleftrightarrow>
      (\<forall>item\<in>set comparison_results.
         n_modified_rows (summary (differences (snd item))) = 0 \<and>
         n_rows_only_in_file1 (summary (differences (snd item))) = 0 \<and>
         n_rows_only_in_file2 (summary (differences (snd item))) = 0)"
    unfolding generate_summary_report_def Let_def
    by (simp add: fold_add_sheet_modifications fold_add_sheet_missing1 fold_add_sheet_missing2
        sum_list_zero_iff ball_conj_distrib)
  have t: "total_modifications (generate_summary_report comparison_results) =
     sum_list (map (\<lambda>item. n_modified_rows (summary (differences (snd item)))) comparison_results)"
    "total_missing_rows_file1 (generate_summary_report comparison_results) =
     sum_list (map (\<lambda>item. n_rows_only_in_file1 (summary (differences (snd item)))) comparison_results)"
    "total_missing_rows_file2 (generate_summary_report comparison_results) =
     sum_list (map (\<lambda>item. n_rows_only_in_file2 (summary (differences (snd item)))) comparison_results)"
    unfolding generate_summary_report_def Let_def
    by (simp_all add: fold_add_sheet_modifications fold_add_sheet_missing1 fold_add_sheet_missing2)
  have w: "sheets_with_differences (generate_summary_report comparison_results) =
     length (filter (\<lambda>item. n_modified_rows (summary (differences (snd item))) \<noteq> 0 \<or>
                            n_rows_only_in_file1 (summary (differences (snd item))) \<noteq> 0 \<or>
                            n_rows_only_in_file2 (summary (differences (snd item))) \<noteq> 0)
       comparison_results)"
    unfolding generate_summary_report_def Let_def
    by (simp add: fold_add_sheet_with_differences)
  have n: "total_sheets (generate_summary_report comparison_results) = length comparison_results"
    unfolding generate_summary_report_def Let_def
    by (simp add: fold_add_sheet_total_sheets)
  from v t w n show ?thesis by (intro conjI)
qed

lemma compare_books:
  "\<exists>rs. compare_excel_files book_v1 book_v2 = Some rs \<and>
     map fst rs = [''Log'', ''Plain''] \<and>
     map (\<lambda>item. n_modified_rows (summary (differences (snd item)))) rs = [1, 1] \<and>
     map (\<lambda>item. n_rows_only_in_file1 (summary (differences (snd item)))) rs = [1, 0] \<and>
     map (\<lambda>item. n_rows_only_in_file2 (summary (differences (snd item)))) rs = [1, 0]"
  by (simp add: compare_excel_files_def compare_sheet_def book_v1_def book_v2_def eval_defs
      sheet_v1_def sheet_v2_def plain_v1_def plain_v2_def undated_v1_def undated_v2_def)

theorem generate_summary_report_rollup_witness:
  "\<exists>rs. compare_excel_files book_v1 book_v2 = Some rs \<and>
     map fst rs = [''Log'', ''Plain''] \<and>
     \<not> files_identical (generate_summary_report rs) \<and>
     total_modifications (generate_summary_report rs) = 2 \<and>
     total_missing_rows_file1 (generate_summary_report rs) = 1 \<and>
     total_missing_rows_file2 (generate_summary_report rs) = 1 \<and>
     total_sheets (generate_summary_report rs) = 2"
proof -
  from compare_books obtain rs where rs: "compare_excel_files book_v1 book_v2 = Some rs"
    and names: "map fst rs = [''Log'', ''Plain'']"
    and m: "map (\<lambda>item. n_modified_rows (summary (differences (snd item)))) rs = [1, 1]"
    and l: "map (\<lambda>item. n_rows_only_in_file1 (summary (differences (snd item)))) rs = [1, 0]"
    and r: "map (\<lambda>item. n_rows_only_in_file2 (summary (differences (snd item)))) rs = [1, 0]"
    by (elim exE conjE)
  note w = generate_summary_report_rollup [of rs]
  have tm: "total_modifications (generate_summary_report rs) = 2"
    using w unfolding m by simp
  have tl: "total_missing_rows_file1 (generate_summary_report rs) = 1"
    using w unfolding l by simp
  have tr: "total_missing_rows_file2 (generate_summary_report rs) = 1"
    using w unfolding r by simp
  have "length (map fst rs) = 2" unfolding names by simp
  then have len: "length rs = 2" by simp
  have ts: "total_sheets (generate_summary_report rs) = 2"
    using w len by simp
  have "\<not> (\<forall>item\<in>set rs. n_modified_rows (summary (differences (snd item))) = 0 \<and>
         n_rows_only_in_file1 (summary (differences (snd item))) = 0 \<and>
         n_rows_only_in_file2 (summary (differences (snd item))) = 0)"
  proof
    assume "\<forall>item\<in>set rs. n_modified_rows (summary (differences (snd item))) = 0 \<and>
         n_rows_only_in_file1 (summary (differences (snd item))) = 0 \<and>
         n_rows_only_in_file2 (summary (differences (snd item))) = 0"
    then have "map (\<lambda>item. n_modified_rows (summary (differences (snd item)))) rs =
        map (\<lambda>item. 0) rs"
      by (intro map_cong) simp_all
    then have "[1, 1] = map (\<lambda>item. 0::nat) rs" unfolding m .
    then show False by (cases rs) simp_all
  qed
  with w have v: "\<not> files_identical (generate_summary_report rs)" by simp
  show ?thesis
  proof (intro exI conjI)
    show "compare_excel_files book_v1 book_v2 = Some rs" by (rule rs)
  qed (rule names v tm tl tr ts)+
qed

section \<open>Sheets without a common identifier\<close>

lemma index_dict_replicate:
  "index_dict (replicate n k) = (if n = 0 then Map.empty else [k \<mapsto> n - 1])"
proof (induction n)
  case 0
  show ?case by (simp add: index_dict_Nil)
next
  case (Suc n)
  have "index_dict (replicate (Suc n) k) = index_dict (replicate n k @ [k])"
    by (simp add: replicate_append_same)
  also have "\<dots> = (index_dict (replicate n k))(k \<mapsto> n)"
    by (simp only: index_dict_snoc length_replicate)
  also have "\<dots> = [k \<mapsto> n]"
    unfolding Suc.IH by (cases "n = 0") simp_all
  finally show ?case by simp
qed

lemma composite_key_column_no_identifier:
  "composite_key_column [] df = replicate (length (rows df)) []"
  by (simp add: composite_key_column_def create_composite_key_def key_parts_def map_replicate_const)

lemma outcome_filters_length:
  "length (filter (\<lambda>k. f k = Identical) ks) + length (filter (\<lambda>k. f k = Modified) ks) +
   length (filter (\<lambda>k. f k = OnlyLeft) ks) + length (filter (\<lambda>k. f k = OnlyRight) ks) \<le> length ks"
  by (induction ks) auto

lemma remdups_replicate_same: "remdups (replicate n k) = (if n = 0 then [] else [k])"
  by (induction n) simp_all

lemma all_keys_replicate: "length (all_keys (replicate m k) (replicate n k)) \<le> 1"
proof -
  have "all_keys (replicate m k) (replicate n k) = remdups (replicate (m + n) k)"
    by (simp add: all_keys_def replicate_add)
  also have "\<dots> = (if m + n = 0 then [] else [k])"
    by (rule remdups_replicate_same)
  finally show ?thesis by simp
qed

text \<open>
  C10. When no configured identifier is a column of both frames, no identifier is
  available, every composite key is the empty string, each dictionary is empty (for a
  frame without rows) or holds the empty key with the position of the last row, and the
  analysis returns with at most one entry in its four collections together.
\<close>

theorem no_identifier_available:
  assumes "\<forall>identifier\<in>set ids. identifier \<notin> set (columns df1) \<or> identifier \<notin> set (columns df2)"
  shows "available_of ids df1 df2 = [] \<and>
     composite_key_column (available_of ids df1 df2) df1 = replicate (length (rows df1)) [] \<and>
     composite_key_column (available_of ids df1 df2) df2 = replicate (length (rows df2)) [] \<and>
     df1_dict_of ids df1 df2 =
       (if length (rows df1) = 0 then Map.empty else [[] \<mapsto> length (rows df1) - 1]) \<and>
     df2_dict_of ids df1 df2 =
       (if length (rows df2) = 0 then Map.empty else [[] \<mapsto> length (rows df2) - 1]) \<and>
     (\<exists>d. analyze_differences_with ids df1 df2 = Inr d \<and>
        length (identical_rows d) + length (modified_rows d) +
        length (rows_only_in_file1 d) + length (rows_only_in_file2 d) \<le> 1 \<and>
        available_identifiers (summary d) = [] \<and> missing_identifiers (summary d) = ids)"
proof -
  have av: "available_of ids df1 df2 = []"
    unfolding available_of_def filter_empty_conv using assms by blast
  have mi: "missing_of ids df1 df2 = ids"
    unfolding missing_of_def using assms by (intro filter_True) blast
  have k1: "composite_key_column (available_of ids df1 df2) df1 = replicate (length (rows df1)) []"
    unfolding av by (rule composite_key_column_no_identifier)
  have k2: "composite_key_column (available_of ids df1 df2) df2 = replicate (length (rows df2)) []"
    unfolding av by (rule composite_key_column_no_identifier)
  have d1: "df1_dict_of ids df1 df2 =
       (if length (rows df1) = 0 then Map.empty else [[] \<mapsto> length (rows df1) - 1])"
    unfolding df1_dict_of_def k1 by (rule index_dict_replicate)
  have d2: "df2_dict_of ids df1 df2 =
       (if length (rows df2) = 0 then Map.empty else [[] \<mapsto> length (rows df2) - 1])"
    unfolding df2_dict_of_def k2 by (rule index_dict_replicate)
  define ks where "ks = all_keys (composite_key_column (available_of ids df1 df2) df1)
                   (composite_key_column (available_of ids df1 df2) df2)"
  from analyze_differences_with_keys [of ids df1 df2]
  obtain d where d: "analyze_differences_with ids df1 df2 = Inr d"
    and i: "map composite_key (identical_rows d) = filter (\<lambda>k. outcome_in ids df1 df2 k = Identical) ks"
    and m: "map composite_key (modified_rows d) = filter (\<lambda>k. outcome_in ids df1 df2 k = Modified) ks"
    and l: "map composite_key (rows_only_in_file1 d) = filter (\<lambda>k. outcome_in ids df1 df2 k = OnlyLeft) ks"
    and r: "map composite_key (rows_only_in_file2 d) = filter (\<lambda>k. outcome_in ids df1 df2 k = OnlyRight) ks"
    and s: "available_identifiers (summary d) = available_of ids df1 df2"
      "missing_identifiers (summary d) = missing_of ids df1 df2"
    unfolding ks_def by (elim exE conjE)
  have "length (identical_rows d) + length (modified_rows d) +
        length (rows_only_in_file1 d) + length (rows_only_in_file2 d) =
        length (map composite_key (identical_rows d)) + length (map composite_key (modified_rows d)) +
        length (map composite_key (rows_only_in_file1 d)) + length (map composite_key (rows_only_in_file2 d))"
    by simp
  also have "\<dots> \<le> length ks"
    unfolding i m l r by (rule outcome_filters_length)
  also have "\<dots> \<le> 1"
    unfolding ks_def k1 k2 by (rule all_keys_replicate)
  finally have le: "length (identical_rows d) + length (modified_rows d) +
        length (rows_only_in_file1 d) + length (rows_only_in_file2 d) \<le> 1" .
  have "\<exists>d. analyze_differences_with ids df1 df2 = Inr d \<and>
        length (identical_rows d) + length (modified_rows d) +
        length (rows_only_in_file1 d) + length (rows_only_in_file2 d) \<le> 1 \<and>
        available_identifiers (summary d) = [] \<and> missing_identifiers (summary d) = ids"
    using d le s av mi by simp
  with av k1 k2 d1 d2 show ?thesis by (intro conjI)
qed

lemma analyze_plain:
  "\<exists>d. analyze_differences_with UNIQUE_IDENTIFIERS plain_v1 plain_v2 = Inr d \<and>
     map composite_key (modified_rows d) = [[]] \<and>
     map file1_index (modified_rows d) = [1] \<and> map file2_index (modified_rows d) = [2] \<and>
     identical_rows d = [] \<and> rows_only_in_file1 d = [] \<and> rows_only_in_file2 d = []"
  by (simp add: eval_defs plain_v1_def plain_v2_def)

theorem no_identifier_available_witness:
  "available_of UNIQUE_IDENTIFIERS plain_v1 plain_v2 = [] \<and>
   composite_key_column (available_of UNIQUE_IDENTIFIERS plain_v1 plain_v2) plain_v1 = [[], []] \<and>
   df1_dict_of UNIQUE_IDENTIFIERS plain_v1 plain_v2 = [[] \<mapsto> 1] \<and>
   df2_dict_of UNIQUE_IDENTIFIERS plain_v1 plain_v2 = [[] \<mapsto> 2] \<and>
   (\<exists>d. analyze_differences_with UNIQUE_IDENTIFIERS plain_v1 plain_v2 = Inr d \<and>
      map composite_key (modified_rows d) = [[]] \<and>
      map file1_index (modified_rows d) = [1] \<and> map file2_index (modified_rows d) = [2] \<and>
      identical_rows d = [] \<and> rows_only_in_file1 d = [] \<and> rows_only_in_file2 d = [])"
proof -
  have h: "\<forall>identifier\<in>set UNIQUE_IDENTIFIERS.
      identifier \<notin> set (columns plain_v1) \<or> identifier \<notin> set (columns plain_v2)"
    by (simp add: UNIQUE_IDENTIFIERS_def plain_v1_def plain_v2_def)
  note w = no_identifier_available [OF h]
  have n1: "length (rows plain_v1) = 2" by (simp add: plain_v1_def)
  have n2: "length (rows plain_v2) = 3" by (simp add: plain_v2_def)
  have av: "available_of UNIQUE_IDENTIFIERS plain_v1 plain_v2 = []"
    by (rule w [THEN conjunct1])
  have "composite_key_column (available_of UNIQUE_IDENTIFIERS plain_v1 plain_v2) plain_v1 =
      replicate (length (rows plain_v1)) []"
    by (rule w [THEN conjunct2, THEN conjunct1])
  then have k1: "composite_key_column (available_of UNIQUE_IDENTIFIERS plain_v1 plain_v2) plain_v1 = [[], []]"
    unfolding n1 by (simp add: numeral_2_eq_2)
  have "df1_dict_of UNIQUE_IDENTIFIERS plain_v1 plain_v2 =
       (if length (rows plain_v1) = 0 then Map.empty else [[] \<mapsto> length (rows plain_v1) - 1])"
    by (rule w [THEN conjunct2, THEN conjunct2, THEN conjunct2, THEN conjunct1])
  then have d1: "df1_dict_of UNIQUE_IDENTIFIERS plain_v1 plain_v2 = [[] \<mapsto> 1]"
    unfolding n1 by simp
  have "df2_dict_of UNIQUE_IDENTIFIERS plain_v1 plain_v2 =
       (if length (rows plain_v2) = 0 then Map.empty else [[] \<mapsto> length (rows plain_v2) - 1])"
    by (rule w [THEN conjunct2, THEN conjunct2, THEN conjunct2, THEN conjunct2, THEN conjunct1])
  then have d2: "df2_dict_of UNIQUE_IDENTIFIERS plain_v1 plain_v2 = [[] \<mapsto> 2]"
    unfolding n2 by simp
  from av k1 d1 d2 analyze_plain show ?thesis by (intro conjI)
qed

section \<open>An identifier absent from one schema\<close>






text \<open>
  With integer codes as identifiers the rows of the two sheets do not agree on the
  normalised values: the rows of the second sheet are float rows because of the empty
  date column, its key is \<open>7.0|10.0\<close> against \<open>7|10\<close>, and each key is on one side only.
\<close>

lemma integer_identifiers_beside_empty_column:
  "\<exists>d. analyze_differences coded_v1 coded_v2 = Inr d \<and>
     map composite_key (rows_only_in_file1 d) = [''7|10''] \<and>
     map composite_key (rows_only_in_file2 d) = [''7.0|10.0''] \<and>
     identical_rows d = [] \<and> modified_rows d = []"
  by (simp add: eval_defs coded_v1_def coded_v2_def Let_def)

end
